theory Spec2Isabelle
  imports Main
begin

section \<open>Errors\<close>

text \<open>
  Both modules signal failure by throwing.  A thrown value is one of: the CLI's own
  \<^verbatim>\<open>FirebaseError\<close> (message, optional wrapped original), the key validator's
  \<^verbatim>\<open>KeyValidationError\<close> (offending key, message), the JavaScript runtime's
  \<^verbatim>\<open>TypeError\<close>, or an error of any other kind raised by a collaborator.
  A function that may throw returns \<open>error + 'a\<close>, with \<open>Inl\<close> for the throw.
\<close>

datatype error =
    FirebaseError string "error option"
  | KeyValidationError string string
  | TypeError string
  | OtherError string

section \<open>Trigger annotations: the data of parseTriggers.ts\<close>

text \<open>
  Optional fields (\<^verbatim>\<open>f?: T\<close>) are \<open>T option\<close>.  Numbers are only passed through, so
  they are \<open>int\<close>; \<^verbatim>\<open>proto.Duration\<close> and \<^verbatim>\<open>runtimes.Runtime\<close> are strings.
  \<^verbatim>\<open>failurePolicy?: {}\<close> carries no data, only its presence.
\<close>

datatype Platform = gcfv1 | gcfv2

type_synonym Runtime = string

record ScheduleRetryConfig =
  retryCount :: "int option"
  maxRetryDuration :: "string option"
  minBackoffDuration :: "string option"
  maxBackoffDuration :: "string option"
  maxDoublings :: "int option"

record ScheduleAnnotation =
  sa_schedule :: string
  sa_timeZone :: "string option"
  sa_retryConfig :: "ScheduleRetryConfig option"

record HttpsTriggerAnnotation =
  allowInsecure :: "bool option"

record EventTriggerAnnotation =
  eventType :: string
  resource :: string
  service :: string

record TriggerAnnotation =
  name :: string
  platform :: "Platform option"
  labels :: "(string \<rightharpoonup> string) option"
  entryPoint :: string
  vpcConnector :: "string option"
  vpcConnectorEgressSettings :: "string option"
  ingressSettings :: "string option"
  availableMemoryMb :: "int option"
  timeout :: "string option"
  maxInstances :: "int option"
  minInstances :: "int option"
  serviceAccountEmail :: "string option"
  httpsTrigger :: "HttpsTriggerAnnotation option"
  eventTrigger :: "EventTriggerAnnotation option"
  failurePolicy :: "unit option"
  schedule :: "ScheduleAnnotation option"
  timeZone :: "string option"
  regions :: "string list option"
  concurrency :: "int option"
  invoker :: "string list option"

subsection \<open>The backend's types (declared in deploy/functions/backend.ts)\<close>

text \<open>
  \<^verbatim>\<open>backend.HttpsTrigger | backend.EventTrigger\<close> is a tagged union; the event trigger's
  \<^verbatim>\<open>eventFilters\<close> object holds the one key \<^verbatim>\<open>resource\<close> that this module writes.
\<close>

datatype Trigger =
    HttpsTrigger bool
  | EventTrigger string string bool

record TargetIds =
  tid_id :: string
  tid_region :: string
  tid_project :: string

record FunctionSpec =
  fn_platform :: Platform
  fn_id :: string
  fn_region :: string
  fn_project :: string
  fn_entryPoint :: string
  fn_runtime :: Runtime
  fn_trigger :: Trigger
  fn_vpcConnector :: "string option"
  fn_concurrency :: "int option"
  fn_serviceAccountEmail :: "string option"
  fn_labels :: "(string \<rightharpoonup> string) option"
  fn_vpcConnectorEgressSettings :: "string option"
  fn_ingressSettings :: "string option"
  fn_timeout :: "string option"
  fn_maxInstances :: "int option"
  fn_minInstances :: "int option"
  fn_availableMemoryMb :: "int option"
  fn_invoker :: "string list option"

record ScheduleSpec =
  sch_id :: string
  sch_project :: string
  sch_schedule :: string
  sch_transport :: string
  sch_targetService :: TargetIds
  sch_timeZone :: "string option"
  sch_retryConfig :: "ScheduleRetryConfig option"

record PubSubSpec =
  top_id :: string
  top_project :: string
  top_labels :: "string \<rightharpoonup> string"
  top_targetService :: TargetIds

record Backend =
  cloudFunctions :: "FunctionSpec list"
  schedules :: "ScheduleSpec list"
  topics :: "PubSubSpec list"
  requiredAPIs :: "string \<rightharpoonup> string"
  environmentVariables :: "string \<rightharpoonup> string"

text \<open>
  What parseTriggers.ts imports from modules that are not among the sources is a
  parameter of the model: the default region \<^verbatim>\<open>api.functionsDefaultRegion\<close>, the
  function \<^verbatim>\<open>backend.scheduleIdForFunction\<close> and the constant
  \<^verbatim>\<open>backend.SCHEDULED_FUNCTION_LABEL\<close>.
\<close>

record externals =
  functionsDefaultRegion :: string
  scheduleIdForFunction :: "TargetIds \<Rightarrow> string"
  SCHEDULED_FUNCTION_LABEL :: "string \<rightharpoonup> string"

text \<open>
  Modelled from the spec: \<^verbatim>\<open>backend.isEventTrigger\<close> (backend.ts is not among the
  sources) tells whether "the function's trigger is an Event trigger".
\<close>

fun isEventTrigger :: "Trigger \<Rightarrow> bool" where
  "isEventTrigger (EventTrigger ty res rtry) = True"
| "isEventTrigger (HttpsTrigger ai) = False"

text \<open>
  Modelled from the spec: \<^verbatim>\<open>proto.copyIfPresent\<close> (gcp/proto.ts is not among the
  sources) "only assigns if the source field is defined, never overwrites with undefined".
  One call per copied field: the destination field's old content and the source field.
\<close>

definition copyIfPresent :: "'a option \<Rightarrow> 'a option \<Rightarrow> 'a option" where
  "copyIfPresent dest src = (case src of None \<Rightarrow> dest | Some v \<Rightarrow> Some v)"

section \<open>addResourcesToBackend\<close>

text \<open>
  \<^verbatim>\<open>!!annotation.httpsTrigger == !!annotation.eventTrigger\<close>: an object is truthy, so
  each side is the presence of the field.
\<close>

definition bothOrNeither :: "TriggerAnnotation \<Rightarrow> bool" where
  "bothOrNeither annotation =
     ((httpsTrigger annotation \<noteq> None) = (eventTrigger annotation \<noteq> None))"

definition unexpectedAnnotation :: error where
  "unexpectedAnnotation = FirebaseError
     ''Unexpected annotation generated by the Firebase Functions SDK. This should never happen.''
     None"

text \<open>
  The \<^verbatim>\<open>if (annotation.httpsTrigger) ... else ...\<close> block.  The \<^verbatim>\<open>else\<close> branch reads
  \<^verbatim>\<open>annotation.eventTrigger!.eventType\<close>, a TypeError when the field is absent.
  The warning logged for an HTTPS function with a failure policy goes to the logger and
  touches neither the trigger nor the backend.
\<close>

definition buildTrigger :: "TriggerAnnotation \<Rightarrow> error + Trigger" where
  "buildTrigger annotation =
     (case httpsTrigger annotation of
        Some h \<Rightarrow>
          Inr (HttpsTrigger
                (case allowInsecure h of
                   Some b \<Rightarrow> b
                 | None \<Rightarrow> platform annotation = None \<or> platform annotation = Some gcfv1))
      | None \<Rightarrow>
          (case eventTrigger annotation of
             Some e \<Rightarrow>
               Inr (EventTrigger (eventType e) (resource e) (failurePolicy annotation \<noteq> None))
           | None \<Rightarrow> Inl (TypeError ''Cannot read properties of undefined'')))"

definition targetIds :: "string \<Rightarrow> TriggerAnnotation \<Rightarrow> string \<Rightarrow> TargetIds" where
  "targetIds projectId annotation region =
     \<lparr>tid_id = name annotation, tid_region = region, tid_project = projectId\<rparr>"

text \<open>The object literal that starts \<^verbatim>\<open>cloudFunction\<close>: every optional field still unset.\<close>

definition baseFunction ::
  "Runtime \<Rightarrow> TriggerAnnotation \<Rightarrow> TargetIds \<Rightarrow> Trigger \<Rightarrow> FunctionSpec" where
  "baseFunction runtime annotation cloudFunctionName trigger =
     \<lparr>fn_platform = (case platform annotation of Some pf \<Rightarrow> pf | None \<Rightarrow> gcfv1),
      fn_id = tid_id cloudFunctionName,
      fn_region = tid_region cloudFunctionName,
      fn_project = tid_project cloudFunctionName,
      fn_entryPoint = entryPoint annotation,
      fn_runtime = runtime,
      fn_trigger = trigger,
      fn_vpcConnector = None,
      fn_concurrency = None,
      fn_serviceAccountEmail = None,
      fn_labels = None,
      fn_vpcConnectorEgressSettings = None,
      fn_ingressSettings = None,
      fn_timeout = None,
      fn_maxInstances = None,
      fn_minInstances = None,
      fn_availableMemoryMb = None,
      fn_invoker = None\<rparr>"

text \<open>
  \<^verbatim>\<open>if (annotation.vpcConnector)\<close> tests truthiness: an absent field and the empty
  string both skip the block.
\<close>

definition setVpcConnector ::
  "string \<Rightarrow> TriggerAnnotation \<Rightarrow> string \<Rightarrow> FunctionSpec \<Rightarrow> FunctionSpec" where
  "setVpcConnector projectId annotation region cloudFunction =
     (case vpcConnector annotation of
        None \<Rightarrow> cloudFunction
      | Some v \<Rightarrow>
          if v = [] then cloudFunction
          else
            (let maybeId =
                   (if CHR ''/'' \<notin> set v
                    then ''projects/'' @ projectId @ ''/locations/'' @ region
                           @ ''/connectors/'' @ v
                    else v)
             in cloudFunction\<lparr>fn_vpcConnector := Some maybeId\<rparr>))"

definition copyPassthrough :: "TriggerAnnotation \<Rightarrow> FunctionSpec \<Rightarrow> FunctionSpec" where
  "copyPassthrough annotation cloudFunction =
     cloudFunction
       \<lparr>fn_concurrency := copyIfPresent (fn_concurrency cloudFunction) (concurrency annotation),
        fn_serviceAccountEmail :=
          copyIfPresent (fn_serviceAccountEmail cloudFunction) (serviceAccountEmail annotation),
        fn_labels := copyIfPresent (fn_labels cloudFunction) (labels annotation),
        fn_vpcConnectorEgressSettings :=
          copyIfPresent (fn_vpcConnectorEgressSettings cloudFunction)
            (vpcConnectorEgressSettings annotation),
        fn_ingressSettings :=
          copyIfPresent (fn_ingressSettings cloudFunction) (ingressSettings annotation),
        fn_timeout := copyIfPresent (fn_timeout cloudFunction) (timeout annotation),
        fn_maxInstances := copyIfPresent (fn_maxInstances cloudFunction) (maxInstances annotation),
        fn_minInstances := copyIfPresent (fn_minInstances cloudFunction) (minInstances annotation),
        fn_availableMemoryMb :=
          copyIfPresent (fn_availableMemoryMb cloudFunction) (availableMemoryMb annotation),
        fn_invoker := copyIfPresent (fn_invoker cloudFunction) (invoker annotation)\<rparr>"

text \<open>
  The body of \<^verbatim>\<open>if (annotation.schedule)\<close>, in the order of its statements: the two
  required APIs, the schedule pushed, the topic pushed, the event resource rewritten, the
  label merged by the object spread (an unset \<^verbatim>\<open>labels\<close> spreads as no key).
\<close>

definition rewriteResource :: "string \<Rightarrow> Trigger \<Rightarrow> Trigger" where
  "rewriteResource ident trigger =
     (if isEventTrigger trigger
      then (case trigger of
              EventTrigger ty res rtry \<Rightarrow> EventTrigger ty (res @ ''/'' @ ident) rtry
            | HttpsTrigger ai \<Rightarrow> trigger)
      else trigger)"

definition scheduleBlock ::
  "externals \<Rightarrow> string \<Rightarrow> ScheduleAnnotation \<Rightarrow> TargetIds \<Rightarrow> FunctionSpec \<Rightarrow> Backend
     \<Rightarrow> FunctionSpec \<times> Backend" where
  "scheduleBlock X projectId sched cloudFunctionName cloudFunction want =
     (let want1 = want\<lparr>requiredAPIs :=
                     (requiredAPIs want)(''pubsub'' \<mapsto> ''pubsub.googleapis.com'')\<rparr>;
          want2 = want1\<lparr>requiredAPIs :=
                     (requiredAPIs want1)(''scheduler'' \<mapsto> ''cloudscheduler.googleapis.com'')\<rparr>;
          ident = scheduleIdForFunction X cloudFunctionName;
          schedule0 = \<lparr>sch_id = ident,
                       sch_project = projectId,
                       sch_schedule = sa_schedule sched,
                       sch_transport = ''pubsub'',
                       sch_targetService = cloudFunctionName,
                       sch_timeZone = None,
                       sch_retryConfig = None\<rparr>;
          schedule1 = schedule0
                       \<lparr>sch_timeZone := copyIfPresent (sch_timeZone schedule0) (sa_timeZone sched),
                        sch_retryConfig :=
                          copyIfPresent (sch_retryConfig schedule0) (sa_retryConfig sched)\<rparr>;
          want3 = want2\<lparr>schedules := schedules want2 @ [schedule1]\<rparr>;
          topic = \<lparr>top_id = ident,
                   top_project = projectId,
                   top_labels = SCHEDULED_FUNCTION_LABEL X,
                   top_targetService = cloudFunctionName\<rparr>;
          want4 = want3\<lparr>topics := topics want3 @ [topic]\<rparr>;
          cloudFunction1 =
            cloudFunction\<lparr>fn_trigger := rewriteResource ident (fn_trigger cloudFunction)\<rparr>;
          cloudFunction2 =
            cloudFunction1
              \<lparr>fn_labels :=
                 Some ((case fn_labels cloudFunction1 of None \<Rightarrow> Map.empty | Some m \<Rightarrow> m)
                         (''deployment-scheduled'' \<mapsto> ''true''))\<rparr>
      in (cloudFunction2, want4))"

text \<open>
  One iteration of the \<^verbatim>\<open>for (const region of ...)\<close> loop.  \<^verbatim>\<open>want\<close> is mutated in
  place, so the caller sees it also after a throw: the result pairs the completion
  (\<open>Inl\<close> a throw, \<open>Inr ()\<close> normal) with the backend as the iteration leaves it.
\<close>

definition regionBody ::
  "externals \<Rightarrow> string \<Rightarrow> Runtime \<Rightarrow> TriggerAnnotation \<Rightarrow> string \<Rightarrow> Backend
     \<Rightarrow> (error + unit) \<times> Backend" where
  "regionBody X projectId runtime annotation region want =
     (if bothOrNeither annotation then (Inl unexpectedAnnotation, want)
      else
        (case buildTrigger annotation of
           Inl e \<Rightarrow> (Inl e, want)
         | Inr trigger \<Rightarrow>
             (let cloudFunctionName = targetIds projectId annotation region;
                  cloudFunction0 = baseFunction runtime annotation cloudFunctionName trigger;
                  cloudFunction1 = setVpcConnector projectId annotation region cloudFunction0;
                  cloudFunction2 = copyPassthrough annotation cloudFunction1;
                  (cloudFunction3, want1) =
                     (case schedule annotation of
                        None \<Rightarrow> (cloudFunction2, want)
                      | Some sched \<Rightarrow>
                          scheduleBlock X projectId sched cloudFunctionName cloudFunction2 want)
              in (Inr (), want1\<lparr>cloudFunctions := cloudFunctions want1 @ [cloudFunction3]\<rparr>))))"

fun forRegions ::
  "externals \<Rightarrow> string \<Rightarrow> Runtime \<Rightarrow> TriggerAnnotation \<Rightarrow> string list \<Rightarrow> Backend
     \<Rightarrow> (error + unit) \<times> Backend" where
  "forRegions X projectId runtime annotation [] want = (Inr (), want)"
| "forRegions X projectId runtime annotation (region # rest) want =
     (case regionBody X projectId runtime annotation region want of
        (Inl e, want1) \<Rightarrow> (Inl e, want1)
      | (Inr u, want1) \<Rightarrow> forRegions X projectId runtime annotation rest want1)"

text \<open>
  \<^verbatim>\<open>annotation.regions || [api.functionsDefaultRegion]\<close>: an array is truthy even when
  empty, so only an absent field takes the default.
\<close>

definition regionsOf :: "externals \<Rightarrow> TriggerAnnotation \<Rightarrow> string list" where
  "regionsOf X annotation =
     (case regions annotation of Some rs \<Rightarrow> rs | None \<Rightarrow> [functionsDefaultRegion X])"

definition addResourcesToBackend ::
  "externals \<Rightarrow> string \<Rightarrow> Runtime \<Rightarrow> TriggerAnnotation \<Rightarrow> Backend
     \<Rightarrow> (error + unit) \<times> Backend" where
  "addResourcesToBackend X projectId runtime annotation want =
     forRegions X projectId runtime annotation (regionsOf X annotation) want"

subsection \<open>What one call appends, region by region\<close>

text \<open>
  The content of \<^verbatim>\<open>cloudFunction\<close> when an iteration pushes it, and of the schedule and
  the topic the iteration pushes, as functions of the region.  They are used to state
  what \<open>forRegions\<close> leaves in the backend.
\<close>

definition finalFunction ::
  "externals \<Rightarrow> string \<Rightarrow> Runtime \<Rightarrow> TriggerAnnotation \<Rightarrow> Trigger \<Rightarrow> string \<Rightarrow> FunctionSpec" where
  "finalFunction X projectId runtime annotation trigger region =
     (let cloudFunctionName = targetIds projectId annotation region;
          cloudFunction =
            copyPassthrough annotation
              (setVpcConnector projectId annotation region
                 (baseFunction runtime annotation cloudFunctionName trigger))
      in case schedule annotation of
           None \<Rightarrow> cloudFunction
         | Some sched \<Rightarrow>
             cloudFunction
               \<lparr>fn_trigger :=
                  rewriteResource (scheduleIdForFunction X cloudFunctionName)
                    (fn_trigger cloudFunction),
                fn_labels :=
                  Some ((case fn_labels cloudFunction of None \<Rightarrow> Map.empty | Some m \<Rightarrow> m)
                          (''deployment-scheduled'' \<mapsto> ''true''))\<rparr>)"

definition scheduleFor ::
  "externals \<Rightarrow> string \<Rightarrow> TriggerAnnotation \<Rightarrow> ScheduleAnnotation \<Rightarrow> string \<Rightarrow> ScheduleSpec" where
  "scheduleFor X projectId annotation sched region =
     \<lparr>sch_id = scheduleIdForFunction X (targetIds projectId annotation region),
      sch_project = projectId,
      sch_schedule = sa_schedule sched,
      sch_transport = ''pubsub'',
      sch_targetService = targetIds projectId annotation region,
      sch_timeZone = sa_timeZone sched,
      sch_retryConfig = sa_retryConfig sched\<rparr>"

definition topicFor ::
  "externals \<Rightarrow> string \<Rightarrow> TriggerAnnotation \<Rightarrow> string \<Rightarrow> PubSubSpec" where
  "topicFor X projectId annotation region =
     \<lparr>top_id = scheduleIdForFunction X (targetIds projectId annotation region),
      top_project = projectId,
      top_labels = SCHEDULED_FUNCTION_LABEL X,
      top_targetService = targetIds projectId annotation region\<rparr>"

section \<open>Exporting runtime config as environment variables (functions-config-export.ts)\<close>

subsection \<open>Strings\<close>

text \<open>
  A string is a list of characters.  \<^verbatim>\<open>String.prototype.toUpperCase\<close> is a builtin of
  the language, defined by the Unicode case mappings (it may change the length of a
  string): it is the parameter \<open>toUpperCase\<close> of the functions below.  \<^verbatim>\<open>replace\<close>
  with a global one-character pattern replaces every occurrence; with a string pattern it
  replaces the first occurrence only.
\<close>

definition replaceAll :: "char \<Rightarrow> string \<Rightarrow> string \<Rightarrow> string" where
  "replaceAll c rep s = concat (map (\<lambda>x. if x = c then rep else [x]) s)"

fun replaceFirst :: "char \<Rightarrow> string \<Rightarrow> string \<Rightarrow> string" where
  "replaceFirst c rep [] = []"
| "replaceFirst c rep (x # xs) = (if x = c then rep @ xs else x # replaceFirst c rep xs)"

definition newline :: char where "newline = CHR 0x0A"
definition carriageReturn :: char where "carriageReturn = CHR 0x0D"
definition tab :: char where "tab = CHR 0x09"
definition verticalTab :: char where "verticalTab = CHR 0x0B"
definition backslash :: char where "backslash = CHR 0x5C"
definition singleQuote :: char where "singleQuote = CHR 0x27"
definition doubleQuote :: char where "doubleQuote = CHR 0x22"

subsection \<open>convertKey\<close>

text \<open>
  \<^verbatim>\<open>env.validateKey\<close> (functions/env.ts) is not among the sources: it is the parameter
  \<open>validateKey\<close>, a function that returns normally or throws.  \<open>convertKey\<close> tells the
  kinds of error apart by \<^verbatim>\<open>instanceof env.KeyValidationError\<close>; its \<^verbatim>\<open>catch\<close> block
  has no \<^verbatim>\<open>else\<close>, so an error of another kind ends the block and \<^verbatim>\<open>envKey\<close> is
  returned as it stands.
\<close>

definition convertKey ::
  "(string \<Rightarrow> string) \<Rightarrow> (string \<Rightarrow> error + unit) \<Rightarrow> string \<Rightarrow> string \<Rightarrow> error + string" where
  "convertKey toUpperCase validateKey configKey prefix =
     (let baseKey = replaceAll (CHR ''-'') ''_''
                      (replaceAll (CHR ''.'') ''_'' (toUpperCase configKey));
          envKey = baseKey
      in case validateKey envKey of
           Inr u \<Rightarrow> Inr envKey
         | Inl err \<Rightarrow>
             (case err of
                KeyValidationError k m \<Rightarrow>
                  (let envKey1 = prefix @ envKey
                   in case validateKey envKey1 of
                        Inl err1 \<Rightarrow> Inl err1
                      | Inr u \<Rightarrow> Inr envKey1)
              | FirebaseError m orig \<Rightarrow> Inr envKey
              | TypeError m \<Rightarrow> Inr envKey
              | OtherError m \<Rightarrow> Inr envKey))"

subsection \<open>configToEnv\<close>

record EnvMap =
  origKey :: string
  newKey :: string
  value' :: string
  err :: "string option"

record ConfigToEnvResult =
  success :: "EnvMap list"
  errors :: "EnvMap list"

text \<open>
  The loop over the flattened entries, with the two lists it pushes to.  A throw out of
  the loop discards them.
\<close>

fun configToEnvLoop ::
  "(string \<Rightarrow> string) \<Rightarrow> (string \<Rightarrow> error + unit) \<Rightarrow> string \<Rightarrow> (string \<times> string) list
     \<Rightarrow> EnvMap list \<Rightarrow> EnvMap list \<Rightarrow> error + ConfigToEnvResult" where
  "configToEnvLoop toUpperCase validateKey prefix [] succ errs =
     Inr \<lparr>success = succ, errors = errs\<rparr>"
| "configToEnvLoop toUpperCase validateKey prefix ((configKey, v) # rest) succ errs =
     (case convertKey toUpperCase validateKey configKey prefix of
        Inr envKey \<Rightarrow>
          configToEnvLoop toUpperCase validateKey prefix rest
            (succ @ [\<lparr>origKey = configKey, newKey = envKey, value' = v, err = None\<rparr>]) errs
      | Inl e \<Rightarrow>
          (case e of
             KeyValidationError k m \<Rightarrow>
               configToEnvLoop toUpperCase validateKey prefix rest succ
                 (errs @ [\<lparr>origKey = configKey, newKey = k, value' = v, err = Some m\<rparr>])
           | FirebaseError m orig \<Rightarrow>
               Inl (FirebaseError ''Unexpected error while converting config'' (Some e))
           | TypeError m \<Rightarrow>
               Inl (FirebaseError ''Unexpected error while converting config'' (Some e))
           | OtherError m \<Rightarrow>
               Inl (FirebaseError ''Unexpected error while converting config'' (Some e))))"

text \<open>
  \<^verbatim>\<open>flatten\<close> comes from the package \<^verbatim>\<open>flat\<close>; \<open>flatten\<close> stands for
  \<^verbatim>\<open>Object.entries(flatten(configs))\<close>, the list of leaves in the order the loop visits
  them.
\<close>

definition configToEnv ::
  "(string \<Rightarrow> string) \<Rightarrow> (string \<Rightarrow> error + unit) \<Rightarrow> ('c \<Rightarrow> (string \<times> string) list) \<Rightarrow> 'c
     \<Rightarrow> string \<Rightarrow> error + ConfigToEnvResult" where
  "configToEnv toUpperCase validateKey flatten configs prefix =
     configToEnvLoop toUpperCase validateKey prefix (flatten configs) [] []"

subsection \<open>toDotenvFormat\<close>

definition escape :: "string \<Rightarrow> string" where
  "escape s =
     (let result =
            replaceFirst verticalTab [backslash, CHR ''v'']
              (replaceFirst tab [backslash, CHR ''t'']
                 (replaceFirst carriageReturn [backslash, CHR ''r'']
                    (replaceFirst newline [backslash, CHR ''n''] s)))
      in concat (map (\<lambda>c. if c = singleQuote \<or> c = doubleQuote then [backslash, c] else [c])
                   result))"

text \<open>\<^verbatim>\<open>Math.max\<close> of no arguments is \<^verbatim>\<open>-Infinity\<close>, here \<open>None\<close>.\<close>

definition Math_max :: "nat list \<Rightarrow> nat option" where
  "Math_max xs = (case xs of [] \<Rightarrow> None | y # ys \<Rightarrow> Some (fold max ys y))"

definition padEnd :: "nat option \<Rightarrow> string \<Rightarrow> string" where
  "padEnd targetLength s =
     (case targetLength of
        None \<Rightarrow> s
      | Some n \<Rightarrow> s @ replicate (n - length s) (CHR '' ''))"

fun join :: "string \<Rightarrow> string list \<Rightarrow> string" where
  "join sep [] = []"
| "join sep [x] = x"
| "join sep (x # y # ys) = x @ sep @ join sep (y # ys)"

definition toDotenvFormat :: "EnvMap list \<Rightarrow> string" where
  "toDotenvFormat envs =
     (let lines = map (\<lambda>e. newKey e @ [CHR ''='', doubleQuote] @ escape (value' e) @ [doubleQuote])
                    envs;
          maxLineLen = Math_max (map length lines)
      in join [newline]
           (map (\<lambda>(line, idx). padEnd maxLineLen line @ '' # from '' @ origKey (envs ! idx))
              (zip lines [0..<length lines])))"

section \<open>Concrete inputs\<close>

text \<open>
  An instance of the parameters, with the values the upstream project gives them, the
  empty backend, and a few annotations; the theorems below are instantiated at them.
\<close>

definition externals0 :: externals where
  "externals0 =
     \<lparr>functionsDefaultRegion = ''us-central1'',
      scheduleIdForFunction = (\<lambda>t. ''firebase-schedule-'' @ tid_id t @ ''-'' @ tid_region t),
      SCHEDULED_FUNCTION_LABEL = [''deployment'' \<mapsto> ''firebase-schedule'']\<rparr>"

text \<open>
  Modelled from the spec: \<^verbatim>\<open>backend.empty()\<close> (backend.ts is not among the sources), the
  "empty AggregateBackend" that discovery seeds.
\<close>

definition emptyBackend :: Backend where
  "emptyBackend =
     \<lparr>cloudFunctions = [], schedules = [], topics = [],
      requiredAPIs = Map.empty, environmentVariables = Map.empty\<rparr>"

definition bareAnnotation :: TriggerAnnotation where
  "bareAnnotation =
     \<lparr>name = ''tick'',
      platform = None,
      labels = None,
      entryPoint = ''tick'',
      vpcConnector = None,
      vpcConnectorEgressSettings = None,
      ingressSettings = None,
      availableMemoryMb = None,
      timeout = None,
      maxInstances = None,
      minInstances = None,
      serviceAccountEmail = None,
      httpsTrigger = None,
      eventTrigger = None,
      failurePolicy = None,
      schedule = None,
      timeZone = None,
      regions = None,
      concurrency = None,
      invoker = None\<rparr>"

definition httpsAnnotation :: TriggerAnnotation where
  "httpsAnnotation = bareAnnotation\<lparr>httpsTrigger := Some \<lparr>allowInsecure = None\<rparr>\<rparr>"

definition eventAnnotation :: TriggerAnnotation where
  "eventAnnotation =
     bareAnnotation
       \<lparr>eventTrigger :=
          Some \<lparr>eventType = ''google.pubsub.topic.publish'',
                resource = ''projects/p/topics'',
                service = ''pubsub.googleapis.com''\<rparr>\<rparr>"

definition everyFiveMinutes :: ScheduleAnnotation where
  "everyFiveMinutes =
     \<lparr>sa_schedule = ''every 5 minutes'', sa_timeZone = None, sa_retryConfig = None\<rparr>"

text \<open>
  A key validator that follows the spec's contract for \<^verbatim>\<open>env.validateKey\<close> on one of
  its rules: a key "must not collide with reserved prefixes", and the failure is of the
  validation kind and carries the offending key.
\<close>

definition reservedPrefix :: "string \<Rightarrow> error + unit" where
  "reservedPrefix k =
     (if take 9 k = ''FIREBASE_''
      then Inl (KeyValidationError k ''starts with a reserved prefix'')
      else Inr ())"

text \<open>
  What \<^verbatim>\<open>toUpperCase\<close> gives on a string of ASCII characters: the letters a to z go to
  A to Z, every other character stays.  The keys of the examples are such strings.
\<close>

definition upperASCII :: "string \<Rightarrow> string" where
  "upperASCII s =
     map (\<lambda>c. case map_of (zip ''abcdefghijklmnopqrstuvwxyz'' ''ABCDEFGHIJKLMNOPQRSTUVWXYZ'') c of
                 Some u \<Rightarrow> u
               | None \<Rightarrow> c) s"

section \<open>The spec's wording of the key transform and of the dotenv format\<close>

text \<open>
  "The key uppercased with every \<^verbatim>\<open>.\<close> and \<^verbatim>\<open>-\<close> replaced by \<^verbatim>\<open>_\<close>."
\<close>

definition transformedKey :: "(string \<Rightarrow> string) \<Rightarrow> string \<Rightarrow> string" where
  "transformedKey toUpperCase configKey =
     map (\<lambda>c. if c = CHR ''.'' \<or> c = CHR ''-'' then CHR ''_'' else c) (toUpperCase configKey)"

text \<open>
  "For each leaf, attempt \<^verbatim>\<open>convertKey\<close>; on success, record a success entry; on a
  validation-kind failure, record an error entry carrying the attempted key and the
  failure message; any other failure kind is fatal": the leaves sorted by what
  \<open>convertKey\<close> does on their key, each list in the order of the leaves.
\<close>

definition isValidationFailure :: "error \<Rightarrow> bool" where
  "isValidationFailure e = (case e of KeyValidationError k m \<Rightarrow> True | _ \<Rightarrow> False)"

definition successEntries ::
  "(string \<Rightarrow> string) \<Rightarrow> (string \<Rightarrow> error + unit) \<Rightarrow> string \<Rightarrow> (string \<times> string) list
     \<Rightarrow> EnvMap list" where
  "successEntries toUpperCase validateKey prefix leaves =
     List.map_filter
       (\<lambda>(configKey, v).
          case convertKey toUpperCase validateKey configKey prefix of
            Inr envKey \<Rightarrow> Some \<lparr>origKey = configKey, newKey = envKey, value' = v, err = None\<rparr>
          | Inl e \<Rightarrow> None)
       leaves"

definition errorEntries ::
  "(string \<Rightarrow> string) \<Rightarrow> (string \<Rightarrow> error + unit) \<Rightarrow> string \<Rightarrow> (string \<times> string) list
     \<Rightarrow> EnvMap list" where
  "errorEntries toUpperCase validateKey prefix leaves =
     List.map_filter
       (\<lambda>(configKey, v).
          case convertKey toUpperCase validateKey configKey prefix of
            Inl (KeyValidationError k m) \<Rightarrow>
              Some \<lparr>origKey = configKey, newKey = k, value' = v, err = Some m\<rparr>
          | _ \<Rightarrow> None)
       leaves"

definition otherFailures ::
  "(string \<Rightarrow> string) \<Rightarrow> (string \<Rightarrow> error + unit) \<Rightarrow> string \<Rightarrow> (string \<times> string) list
     \<Rightarrow> error list" where
  "otherFailures toUpperCase validateKey prefix leaves =
     List.map_filter
       (\<lambda>(configKey, v).
          case convertKey toUpperCase validateKey configKey prefix of
            Inl e \<Rightarrow> if isValidationFailure e then None else Some e
          | Inr envKey \<Rightarrow> None)
       leaves"

text \<open>
  The contract of \<^verbatim>\<open>env.validateKey\<close> in the spec: it "succeeds, or fails with a
  validation-kind error carrying the offending key and a human-readable reason".
\<close>

definition meetsContract :: "(string \<Rightarrow> error + unit) \<Rightarrow> bool" where
  "meetsContract validateKey \<longleftrightarrow>
     (\<forall>k e. validateKey k = Inl e \<longrightarrow> (\<exists>m. e = KeyValidationError k m))"

text \<open>
  "Replaces only the first occurrence": the text before the first \<open>c\<close>, the replacement,
  the text after it; a string without \<open>c\<close> stays.
\<close>

definition firstOccurrenceReplaced :: "char \<Rightarrow> string \<Rightarrow> string \<Rightarrow> string" where
  "firstOccurrenceReplaced c rep s =
     (if c \<in> set s
      then takeWhile (\<lambda>x. x \<noteq> c) s @ rep @ tl (dropWhile (\<lambda>x. x \<noteq> c) s)
      else s)"

text \<open>
  "The first occurrence each of newline, carriage return, tab and vertical tab (in that
  order) replaced by its backslash sequence, and then every single-quote and double-quote
  character prefixed with a backslash."
\<close>

definition escape_spec :: "string \<Rightarrow> string" where
  "escape_spec s =
     (let s1 = firstOccurrenceReplaced newline [backslash, CHR ''n''] s;
          s2 = firstOccurrenceReplaced carriageReturn [backslash, CHR ''r''] s1;
          s3 = firstOccurrenceReplaced tab [backslash, CHR ''t''] s2;
          s4 = firstOccurrenceReplaced verticalTab [backslash, CHR ''v''] s3
      in concat (map (\<lambda>c. if c \<in> {singleQuote, doubleQuote} then [backslash, c] else [c]) s4))"

text \<open>\<^verbatim>\<open>KEY="escaped-value"\<close>, and the line padded with spaces to a given length.\<close>

definition rendered :: "EnvMap \<Rightarrow> string" where
  "rendered e = newKey e @ [CHR ''='', doubleQuote] @ escape_spec (value' e) @ [doubleQuote]"

definition padded :: "nat \<Rightarrow> string \<Rightarrow> string" where
  "padded n s = s @ replicate (n - length s) (CHR '' '')"

section \<open>addResourcesToBackend over an explicit store\<close>

text \<open>
  In the records above an annotation is a value, so that the call cannot change it is
  built in.  To state what the call does to the caller's objects, this section models the
  same function over a store of JavaScript objects: a value is a primitive or a reference
  to a cell, a cell is an object (its properties, the latest write first) or an array,
  and a new object is a new cell at the end of the store.

  The store is assumed to hold the annotation and the backend as their TypeScript types
  say, so reads that those types rule out are not given an error branch: a property of
  something that is not an object reads as \<^verbatim>\<open>undefined\<close>, and a string is expected
  where the source builds a string.  \<^verbatim>\<open>Object.freeze(annotation)\<close> changes no property
  and is not a step of the model: no statement of the function assigns to a property of
  \<^verbatim>\<open>annotation\<close>, so the freeze could only show if the annotation were itself one of the
  backend's lists or its map of required APIs.
\<close>

type_synonym addr = nat

datatype jsval = JUndefined | JBool bool | JNum int | JStr string | JRef addr

datatype jsobj = Object "(string \<times> jsval) list" | Array "jsval list"

type_synonym store = "jsobj list"

definition truthy :: "jsval \<Rightarrow> bool" where
  "truthy v =
     (case v of
        JUndefined \<Rightarrow> False
      | JBool b \<Rightarrow> b
      | JNum n \<Rightarrow> n \<noteq> 0
      | JStr s \<Rightarrow> s \<noteq> []
      | JRef a \<Rightarrow> True)"

definition strOf :: "jsval \<Rightarrow> string" where
  "strOf v = (case v of JStr s \<Rightarrow> s | _ \<Rightarrow> [])"

definition alloc :: "store \<Rightarrow> jsobj \<Rightarrow> addr \<times> store" where
  "alloc s ob = (length s, s @ [ob])"

definition propsOf :: "store \<Rightarrow> jsval \<Rightarrow> (string \<times> jsval) list" where
  "propsOf s v =
     (case v of
        JRef a \<Rightarrow>
          (if a < length s then (case s ! a of Object ps \<Rightarrow> ps | Array vs \<Rightarrow> []) else [])
      | _ \<Rightarrow> [])"

text \<open>\<^verbatim>\<open>k in v\<close>, \<^verbatim>\<open>v[k]\<close>, the elements of an array, \<^verbatim>\<open>v[k] = x\<close> and \<^verbatim>\<open>v.push(x)\<close>.\<close>

definition hasProp :: "store \<Rightarrow> jsval \<Rightarrow> string \<Rightarrow> bool" where
  "hasProp s v k = (map_of (propsOf s v) k \<noteq> None)"

definition getProp :: "store \<Rightarrow> jsval \<Rightarrow> string \<Rightarrow> jsval" where
  "getProp s v k = (case map_of (propsOf s v) k of Some x \<Rightarrow> x | None \<Rightarrow> JUndefined)"

definition elemsOf :: "store \<Rightarrow> jsval \<Rightarrow> jsval list" where
  "elemsOf s v =
     (case v of
        JRef a \<Rightarrow>
          (if a < length s then (case s ! a of Array vs \<Rightarrow> vs | Object ps \<Rightarrow> []) else [])
      | _ \<Rightarrow> [])"

definition setProp :: "store \<Rightarrow> jsval \<Rightarrow> string \<Rightarrow> jsval \<Rightarrow> store" where
  "setProp s v k x =
     (case v of
        JRef a \<Rightarrow>
          (if a < length s
           then (case s ! a of Object ps \<Rightarrow> s[a := Object ((k, x) # ps)] | Array vs \<Rightarrow> s)
           else s)
      | _ \<Rightarrow> s)"

definition push :: "store \<Rightarrow> jsval \<Rightarrow> jsval \<Rightarrow> store" where
  "push s v x =
     (case v of
        JRef a \<Rightarrow>
          (if a < length s
           then (case s ! a of Array vs \<Rightarrow> s[a := Array (vs @ [x])] | Object ps \<Rightarrow> s)
           else s)
      | _ \<Rightarrow> s)"

text \<open>\<^verbatim>\<open>v.path[k] = x\<close> and \<^verbatim>\<open>v.path.push(x)\<close>.\<close>

definition setIn :: "store \<Rightarrow> jsval \<Rightarrow> string \<Rightarrow> string \<Rightarrow> jsval \<Rightarrow> store" where
  "setIn s v path k x = setProp s (getProp s v path) k x"

definition pushIn :: "store \<Rightarrow> jsval \<Rightarrow> string \<Rightarrow> jsval \<Rightarrow> store" where
  "pushIn s v path x = push s (getProp s v path) x"

text \<open>
  Modelled from the spec: \<^verbatim>\<open>proto.copyIfPresent\<close> (gcp/proto.ts is not among the
  sources) "assigns when the source field is defined".  An assignment copies the value
  of the field; for an object that value is the reference.
\<close>

fun copyIfPresent_s :: "store \<Rightarrow> jsval \<Rightarrow> jsval \<Rightarrow> string list \<Rightarrow> store" where
  "copyIfPresent_s s dest src [] = s"
| "copyIfPresent_s s dest src (field # rest) =
     copyIfPresent_s
       (if hasProp s src field then setProp s dest field (getProp s src field) else s)
       dest src rest"

subsection \<open>The statements of the loop body\<close>

text \<open>
  In an object literal the properties are listed last first, as a lookup finds the
  latest write.
\<close>

definition buildTrigger_s :: "store \<Rightarrow> jsval \<Rightarrow> jsval \<times> store" where
  "buildTrigger_s s annotation =
     (if truthy (getProp s annotation ''httpsTrigger'')
      then
        (let insecure =
               (if hasProp s (getProp s annotation ''httpsTrigger'') ''allowInsecure''
                then truthy (getProp s (getProp s annotation ''httpsTrigger'') ''allowInsecure'')
                else \<not> truthy (getProp s annotation ''platform'')
                       \<or> getProp s annotation ''platform'' = JStr ''gcfv1'');
             (triggerAt, s1) = alloc s (Object [(''allowInsecure'', JBool insecure)])
         in (JRef triggerAt, s1))
      else
        (let eventAnn = getProp s annotation ''eventTrigger'';
             (eventFiltersAt, s1) =
                alloc s (Object [(''resource'', getProp s eventAnn ''resource'')]);
             (triggerAt, s2) =
                alloc s1 (Object [(''retry'', JBool (truthy (getProp s annotation ''failurePolicy''))),
                                  (''eventFilters'', JRef eventFiltersAt),
                                  (''eventType'', getProp s eventAnn ''eventType'')])
         in (JRef triggerAt, s2)))"

definition newTargetIds_s :: "string \<Rightarrow> jsval \<Rightarrow> string \<Rightarrow> store \<Rightarrow> jsval \<times> store" where
  "newTargetIds_s projectId annotation region s =
     (let (cloudFunctionNameAt, s1) =
            alloc s (Object [(''project'', JStr projectId),
                             (''region'', JStr region),
                             (''id'', getProp s annotation ''name'')])
      in (JRef cloudFunctionNameAt, s1))"

definition newFunctionObject_s ::
  "Runtime \<Rightarrow> jsval \<Rightarrow> jsval \<Rightarrow> jsval \<Rightarrow> store \<Rightarrow> jsval \<times> store" where
  "newFunctionObject_s runtime annotation cloudFunctionName trigger s =
     (let (cloudFunctionAt, s1) =
            alloc s (Object ([(''trigger'', trigger),
                              (''runtime'', JStr runtime),
                              (''entryPoint'', getProp s annotation ''entryPoint'')]
                             @ propsOf s cloudFunctionName
                             @ [(''platform'',
                                 (if truthy (getProp s annotation ''platform'')
                                  then getProp s annotation ''platform''
                                  else JStr ''gcfv1''))]))
      in (JRef cloudFunctionAt, s1))"

definition setVpcConnector_s :: "string \<Rightarrow> string \<Rightarrow> jsval \<Rightarrow> jsval \<Rightarrow> store \<Rightarrow> store" where
  "setVpcConnector_s projectId region annotation cloudFunction s =
     (if truthy (getProp s annotation ''vpcConnector'')
      then
        (let v = strOf (getProp s annotation ''vpcConnector'');
             maybeId =
               (if CHR ''/'' \<notin> set v
                then ''projects/'' @ projectId @ ''/locations/'' @ region @ ''/connectors/'' @ v
                else v)
         in setProp s cloudFunction ''vpcConnector'' (JStr maybeId))
      else s)"

definition passthroughFields :: "string list" where
  "passthroughFields =
     [''concurrency'', ''serviceAccountEmail'', ''labels'', ''vpcConnectorEgressSettings'',
      ''ingressSettings'', ''timeout'', ''maxInstances'', ''minInstances'',
      ''availableMemoryMb'', ''invoker'']"

text \<open>From the trigger to \<^verbatim>\<open>proto.copyIfPresent(cloudFunction, annotation, ...)\<close>.\<close>

definition newFunction_s ::
  "string \<Rightarrow> Runtime \<Rightarrow> jsval \<Rightarrow> string \<Rightarrow> store \<Rightarrow> (jsval \<times> jsval) \<times> store" where
  "newFunction_s projectId runtime annotation region s =
     (let (trigger, s1) = buildTrigger_s s annotation;
          (cloudFunctionName, s2) = newTargetIds_s projectId annotation region s1;
          (cloudFunction, s3) =
             newFunctionObject_s runtime annotation cloudFunctionName trigger s2;
          s4 = setVpcConnector_s projectId region annotation cloudFunction s3;
          s5 = copyIfPresent_s s4 cloudFunction annotation passthroughFields
      in ((cloudFunctionName, cloudFunction), s5))"

definition scheduleIdOf :: "externals \<Rightarrow> jsval \<Rightarrow> store \<Rightarrow> string" where
  "scheduleIdOf X cloudFunctionName s =
     scheduleIdForFunction X
       \<lparr>tid_id = strOf (getProp s cloudFunctionName ''id''),
        tid_region = strOf (getProp s cloudFunctionName ''region''),
        tid_project = strOf (getProp s cloudFunctionName ''project'')\<rparr>"

definition newSchedule_s :: "string \<Rightarrow> string \<Rightarrow> jsval \<Rightarrow> jsval \<Rightarrow> store \<Rightarrow> jsval \<times> store" where
  "newSchedule_s ident projectId annotation cloudFunctionName s =
     (let (scheduleAt, s1) =
            alloc s (Object [(''targetService'', cloudFunctionName),
                             (''transport'', JStr ''pubsub''),
                             (''schedule'',
                              getProp s (getProp s annotation ''schedule'') ''schedule''),
                             (''project'', JStr projectId),
                             (''id'', JStr ident)])
      in (JRef scheduleAt,
          copyIfPresent_s s1 (JRef scheduleAt) (getProp s annotation ''schedule'')
            [''timeZone'', ''retryConfig'']))"

definition newTopic_s :: "string \<Rightarrow> jsval \<Rightarrow> string \<Rightarrow> jsval \<Rightarrow> store \<Rightarrow> jsval \<times> store" where
  "newTopic_s ident scheduledLabel projectId cloudFunctionName s =
     (let (topicAt, s1) =
            alloc s (Object [(''targetService'', cloudFunctionName),
                             (''labels'', scheduledLabel),
                             (''project'', JStr projectId),
                             (''id'', JStr ident)])
      in (JRef topicAt, s1))"

text \<open>
  The first half of \<^verbatim>\<open>if (annotation.schedule)\<close>: the required APIs, the schedule and the
  topic.  \<open>scheduledLabel\<close> is the reference held by
  \<^verbatim>\<open>backend.SCHEDULED_FUNCTION_LABEL\<close>.
\<close>

definition addScheduleAndTopic_s ::
  "externals \<Rightarrow> jsval \<Rightarrow> string \<Rightarrow> jsval \<Rightarrow> jsval \<Rightarrow> jsval \<Rightarrow> store \<Rightarrow> string \<times> store" where
  "addScheduleAndTopic_s X scheduledLabel projectId annotation want cloudFunctionName s =
     (let s1 = setIn s want ''requiredAPIs'' ''pubsub'' (JStr ''pubsub.googleapis.com'');
          s2 = setIn s1 want ''requiredAPIs'' ''scheduler''
                 (JStr ''cloudscheduler.googleapis.com'');
          ident = scheduleIdOf X cloudFunctionName s2;
          (scheduleRef, s3) = newSchedule_s ident projectId annotation cloudFunctionName s2;
          s4 = pushIn s3 want ''schedules'' scheduleRef;
          (topic, s5) = newTopic_s ident scheduledLabel projectId cloudFunctionName s4
      in (ident, pushIn s5 want ''topics'' topic))"

text \<open>
  The second half: the resource rewritten through \<^verbatim>\<open>cloudFunction.trigger\<close>, and the label
  merged into a new object.  Modelled from the spec: \<^verbatim>\<open>backend.isEventTrigger\<close> holds of
  the trigger that has an \<^verbatim>\<open>eventType\<close>.
\<close>

definition rewriteResource_s :: "string \<Rightarrow> jsval \<Rightarrow> store \<Rightarrow> store" where
  "rewriteResource_s ident trigger s =
     (let eventFilters = getProp s trigger ''eventFilters''
      in setProp s eventFilters ''resource''
           (JStr (strOf (getProp s eventFilters ''resource'') @ ''/'' @ ident)))"

definition mergeLabel_s :: "jsval \<Rightarrow> store \<Rightarrow> store" where
  "mergeLabel_s cloudFunction s =
     (let (labelsAt, s1) =
            alloc s (Object ((''deployment-scheduled'', JStr ''true'')
                               # propsOf s (getProp s cloudFunction ''labels'')))
      in setProp s1 cloudFunction ''labels'' (JRef labelsAt))"

definition markScheduled_s :: "string \<Rightarrow> jsval \<Rightarrow> store \<Rightarrow> store" where
  "markScheduled_s ident cloudFunction s =
     (let trigger = getProp s cloudFunction ''trigger'';
          s1 = (if hasProp s trigger ''eventType'' then rewriteResource_s ident trigger s else s)
      in mergeLabel_s cloudFunction s1)"

definition regionBody_s ::
  "externals \<Rightarrow> jsval \<Rightarrow> string \<Rightarrow> Runtime \<Rightarrow> jsval \<Rightarrow> jsval \<Rightarrow> string \<Rightarrow> store
     \<Rightarrow> (error + unit) \<times> store" where
  "regionBody_s X scheduledLabel projectId runtime annotation want region s =
     (if truthy (getProp s annotation ''httpsTrigger'')
           = truthy (getProp s annotation ''eventTrigger'')
      then (Inl unexpectedAnnotation, s)
      else
        (let ((cloudFunctionName, cloudFunction), s1) =
                newFunction_s projectId runtime annotation region s;
             s2 = (if truthy (getProp s1 annotation ''schedule'')
                   then
                     (let (ident, s') =
                            addScheduleAndTopic_s X scheduledLabel projectId annotation
                              want cloudFunctionName s1
                      in markScheduled_s ident cloudFunction s')
                   else s1)
         in (Inr (), pushIn s2 want ''cloudFunctions'' cloudFunction)))"

fun forRegions_s ::
  "externals \<Rightarrow> jsval \<Rightarrow> string \<Rightarrow> Runtime \<Rightarrow> jsval \<Rightarrow> jsval \<Rightarrow> jsval list \<Rightarrow> store
     \<Rightarrow> (error + unit) \<times> store" where
  "forRegions_s X scheduledLabel projectId runtime annotation want [] s = (Inr (), s)"
| "forRegions_s X scheduledLabel projectId runtime annotation want (region # rest) s =
     (case regionBody_s X scheduledLabel projectId runtime annotation want (strOf region) s of
        (Inl e, s1) \<Rightarrow> (Inl e, s1)
      | (Inr u, s1) \<Rightarrow> forRegions_s X scheduledLabel projectId runtime annotation want rest s1)"

text \<open>
  \<^verbatim>\<open>annotation.regions || [api.functionsDefaultRegion]\<close>: the array literal is a new
  cell.  The loop visits the elements the array has when the loop starts; that is what
  \<^verbatim>\<open>for ... of\<close> does as long as the array is none of the lists the body pushes to.
\<close>

definition addResourcesToBackend_s ::
  "externals \<Rightarrow> jsval \<Rightarrow> string \<Rightarrow> Runtime \<Rightarrow> jsval \<Rightarrow> jsval \<Rightarrow> store
     \<Rightarrow> (error + unit) \<times> store" where
  "addResourcesToBackend_s X scheduledLabel projectId runtime annotation want s =
     (let (regionsRef, s0) =
            (if truthy (getProp s annotation ''regions'')
             then (getProp s annotation ''regions'', s)
             else (let (a, s') = alloc s (Array [JStr (functionsDefaultRegion X)])
                   in (JRef a, s')))
      in forRegions_s X scheduledLabel projectId runtime annotation want
           (elemsOf s0 regionsRef) s0)"

subsection \<open>What the call may write to\<close>






definition freshRef :: "store \<Rightarrow> jsval \<times> store \<Rightarrow> bool" where
  "freshRef s r \<longleftrightarrow> (\<exists>a. fst r = JRef a \<and> length s \<le> a \<and> a < length (snd r))"



text \<open>
  The cells a value reaches: the cell it refers to, and every cell that a property or an
  element of a reached cell refers to.  For the annotation these are the annotation
  itself, its trigger, schedule, labels and regions objects, and what they refer to.
\<close>

fun refOf :: "jsval \<Rightarrow> addr list" where
  "refOf (JRef a) = [a]"
| "refOf JUndefined = []"
| "refOf (JBool b) = []"
| "refOf (JNum n) = []"
| "refOf (JStr s) = []"

definition cellRefs :: "jsobj \<Rightarrow> addr list" where
  "cellRefs ob =
     (case ob of
        Object ps \<Rightarrow> concat (map (\<lambda>(k, x). refOf x) ps)
      | Array vs \<Rightarrow> concat (map refOf vs))"

inductive_set reach :: "store \<Rightarrow> jsval \<Rightarrow> addr set" for s :: store and v :: jsval where
  root: "v = JRef a \<Longrightarrow> a \<in> reach s v"
| step: "a \<in> reach s v \<Longrightarrow> a < length s \<Longrightarrow> b \<in> set (cellRefs (s ! a)) \<Longrightarrow> b \<in> reach s v"

subsection \<open>Two stores\<close>

text \<open>
  Cell 0 is the annotation, cells 1 to 3 the objects it refers to, cell 4 the backend,
  cells 5 to 9 its lists and maps, cell 10 the scheduled-function label.  In the first
  store the annotation is an HTTPS function with a label and two regions; in the second
  a scheduled event function.
\<close>

definition backendCells :: store where
  "backendCells =
     [Object [(''cloudFunctions'', JRef 5), (''schedules'', JRef 6), (''topics'', JRef 7),
              (''requiredAPIs'', JRef 8), (''environmentVariables'', JRef 9)],
      Array [], Array [], Array [], Object [], Object [],
      Object [(''deployment'', JStr ''firebase-schedule'')]]"


definition scheduledStore :: store where
  "scheduledStore =
     [Object [(''name'', JStr ''tick''), (''entryPoint'', JStr ''tick''),
              (''eventTrigger'', JRef 1), (''labels'', JRef 2), (''schedule'', JRef 3)],
      Object [(''eventType'', JStr ''google.pubsub.topic.publish''),
              (''resource'', JStr ''projects/p/topics''),
              (''service'', JStr ''pubsub.googleapis.com'')],
      Object [(''team'', JStr ''core'')],
      Object [(''schedule'', JStr ''every 5 minutes'')]]
     @ backendCells"


definition scheduledStoreAfter :: store where
  "scheduledStoreAfter =
     snd (addResourcesToBackend_s externals0 (JRef 10) ''p'' ''nodejs14'' (JRef 0) (JRef 4)
            scheduledStore)"

section \<open>Properties of addResourcesToBackend\<close>

subsection \<open>One iteration, and the loop\<close>

lemma buildTrigger_ok: "\<not> bothOrNeither a \<Longrightarrow> \<exists>t. buildTrigger a = Inr t"
  by (auto simp: bothOrNeither_def buildTrigger_def split: option.splits)

lemma scheduleBlock_fst:
  "fst (scheduleBlock X p s tid cf want) =
     cf\<lparr>fn_trigger := rewriteResource (scheduleIdForFunction X tid) (fn_trigger cf),
        fn_labels := Some ((case fn_labels cf of None \<Rightarrow> Map.empty | Some m \<Rightarrow> m)
                         (''deployment-scheduled'' \<mapsto> ''true''))\<rparr>"
  by (simp add: scheduleBlock_def Let_def)

lemma scheduleBlock_snd:
  "snd (scheduleBlock X p s tid cf want) =
     want\<lparr>requiredAPIs := (requiredAPIs want)(''pubsub'' \<mapsto> ''pubsub.googleapis.com'',
                               ''scheduler'' \<mapsto> ''cloudscheduler.googleapis.com''),
          schedules := schedules want @
             [\<lparr>sch_id = scheduleIdForFunction X tid, sch_project = p,
               sch_schedule = sa_schedule s, sch_transport = ''pubsub'',
               sch_targetService = tid, sch_timeZone = sa_timeZone s,
               sch_retryConfig = sa_retryConfig s\<rparr>],
          topics := topics want @
             [\<lparr>top_id = scheduleIdForFunction X tid, top_project = p,
               top_labels = SCHEDULED_FUNCTION_LABEL X, top_targetService = tid\<rparr>]\<rparr>"
  by (simp add: scheduleBlock_def Let_def copyIfPresent_def split: option.splits)

lemma regionBody_throw:
  "bothOrNeither a \<Longrightarrow> regionBody X p rt a r w = (Inl unexpectedAnnotation, w)"
  by (simp add: regionBody_def)

lemma regionBody_eq:
  assumes "\<not> bothOrNeither a" and "buildTrigger a = Inr t"
  shows "regionBody X p rt a r w =
    (Inr (),
     (case schedule a of
        None \<Rightarrow> w
      | Some s \<Rightarrow>
          w\<lparr>requiredAPIs := (requiredAPIs w)(''pubsub'' \<mapsto> ''pubsub.googleapis.com'',
                               ''scheduler'' \<mapsto> ''cloudscheduler.googleapis.com''),
            schedules := schedules w @ [scheduleFor X p a s r],
            topics := topics w @ [topicFor X p a r]\<rparr>)
      \<lparr>cloudFunctions := cloudFunctions w @ [finalFunction X p rt a t r]\<rparr>)"
proof (cases "schedule a")
  case None
  with assms show ?thesis
    by (simp add: regionBody_def finalFunction_def Let_def)
next
  case (Some s)
  obtain cf w1 where sb: "scheduleBlock X p s (targetIds p a r)
      (copyPassthrough a (setVpcConnector p a r (baseFunction rt a (targetIds p a r) t))) w = (cf, w1)"
    by (cases "scheduleBlock X p s (targetIds p a r)
      (copyPassthrough a (setVpcConnector p a r (baseFunction rt a (targetIds p a r) t))) w")
  from sb have cf: "cf = fst (scheduleBlock X p s (targetIds p a r)
      (copyPassthrough a (setVpcConnector p a r (baseFunction rt a (targetIds p a r) t))) w)"
    and w1: "w1 = snd (scheduleBlock X p s (targetIds p a r)
      (copyPassthrough a (setVpcConnector p a r (baseFunction rt a (targetIds p a r) t))) w)"
    by simp_all
  from assms Some sb have "regionBody X p rt a r w =
      (Inr (), w1\<lparr>cloudFunctions := cloudFunctions w1 @ [cf]\<rparr>)"
    by (simp add: regionBody_def Let_def)
  also have "cf = finalFunction X p rt a t r"
    unfolding cf scheduleBlock_fst by (simp add: finalFunction_def Let_def Some)
  finally show ?thesis
    unfolding w1 scheduleBlock_snd by (simp add: Some scheduleFor_def topicFor_def)
qed

lemma forRegions_fst:
  assumes "\<not> bothOrNeither a"
  shows "fst (forRegions X p rt a rs w) = Inr ()"
proof -
  from assms obtain t where t: "buildTrigger a = Inr t"
    using buildTrigger_ok by blast
  show ?thesis
    by (induction rs arbitrary: w) (simp_all add: regionBody_eq [OF assms t])
qed

lemma forRegions_cloudFunctions:
  assumes "\<not> bothOrNeither a" and t: "buildTrigger a = Inr t"
  shows "cloudFunctions (snd (forRegions X p rt a rs w)) =
           cloudFunctions w @ map (finalFunction X p rt a t) rs"
  by (induction rs arbitrary: w) (simp_all add: regionBody_eq [OF assms] split: option.splits)

lemma forRegions_schedules:
  assumes "\<not> bothOrNeither a" and t: "buildTrigger a = Inr t"
  shows "schedules (snd (forRegions X p rt a rs w)) =
           schedules w @ (case schedule a of None \<Rightarrow> [] | Some s \<Rightarrow> map (scheduleFor X p a s) rs)"
  by (induction rs arbitrary: w) (simp_all add: regionBody_eq [OF assms] split: option.splits)

lemma forRegions_topics:
  assumes "\<not> bothOrNeither a" and t: "buildTrigger a = Inr t"
  shows "topics (snd (forRegions X p rt a rs w)) =
           topics w @ (case schedule a of None \<Rightarrow> [] | Some s \<Rightarrow> map (topicFor X p a) rs)"
  by (induction rs arbitrary: w) (simp_all add: regionBody_eq [OF assms] split: option.splits)

lemma forRegions_requiredAPIs:
  assumes "\<not> bothOrNeither a" and t: "buildTrigger a = Inr t"
  shows "requiredAPIs (snd (forRegions X p rt a rs w)) =
           (if schedule a = None \<or> rs = [] then requiredAPIs w
            else (requiredAPIs w)(''pubsub'' \<mapsto> ''pubsub.googleapis.com'',
                                  ''scheduler'' \<mapsto> ''cloudscheduler.googleapis.com''))"
  by (induction rs arbitrary: w) (auto simp add: regionBody_eq [OF assms] split: option.splits)

lemma forRegions_environmentVariables:
  assumes "\<not> bothOrNeither a" and t: "buildTrigger a = Inr t"
  shows "environmentVariables (snd (forRegions X p rt a rs w)) = environmentVariables w"
  by (induction rs arbitrary: w) (simp_all add: regionBody_eq [OF assms] split: option.splits)

lemma forRegions_throw:
  assumes "bothOrNeither a"
  shows "forRegions X p rt a rs w = (if rs = [] then (Inr (), w) else (Inl unexpectedAnnotation, w))"
  by (cases rs) (simp_all add: regionBody_throw [OF assms])

lemma finalFunction_ids:
  "fn_id (finalFunction X p rt a t r) = name a"
  "fn_region (finalFunction X p rt a t r) = r"
  "fn_project (finalFunction X p rt a t r) = p"
  by (simp_all add: finalFunction_def Let_def copyPassthrough_def setVpcConnector_def
      baseFunction_def targetIds_def split: option.splits)

lemma finalFunction_trigger:
  "fn_trigger (finalFunction X p rt a t r) =
     (case schedule a of
        None \<Rightarrow> t
      | Some s \<Rightarrow> rewriteResource (scheduleIdForFunction X (targetIds p a r)) t)"
  by (simp add: finalFunction_def Let_def copyPassthrough_def setVpcConnector_def
      baseFunction_def split: option.splits)

lemma finalFunction_vpcConnector:
  "fn_vpcConnector (finalFunction X p rt a t r) =
     (case vpcConnector a of
        None \<Rightarrow> None
      | Some v \<Rightarrow>
          if v = [] then None
          else Some (if CHR ''/'' \<in> set v then v
                     else ''projects/'' @ p @ ''/locations/'' @ r @ ''/connectors/'' @ v))"
  by (simp add: finalFunction_def Let_def copyPassthrough_def setVpcConnector_def
      baseFunction_def split: option.splits)

lemma finalFunction_labels:
  "fn_labels (finalFunction X p rt a t r) =
     (case schedule a of
        None \<Rightarrow> labels a
      | Some s \<Rightarrow> Some ((case labels a of None \<Rightarrow> Map.empty | Some m \<Rightarrow> m)
                         (''deployment-scheduled'' \<mapsto> ''true'')))"
  by (simp add: finalFunction_def Let_def copyPassthrough_def setVpcConnector_def
      baseFunction_def copyIfPresent_def split: option.splits)

lemma buildTrigger_https:
  assumes "httpsTrigger a = Some h"
  shows "buildTrigger a =
     Inr (HttpsTrigger (case allowInsecure h of
                          Some b \<Rightarrow> b
                        | None \<Rightarrow> platform a = None \<or> platform a = Some gcfv1))"
  using assms by (simp add: buildTrigger_def)

lemma buildTrigger_event:
  assumes "httpsTrigger a = None" and "eventTrigger a = Some e"
  shows "buildTrigger a = Inr (EventTrigger (eventType e) (resource e) (failurePolicy a \<noteq> None))"
  using assms by (simp add: buildTrigger_def)

lemma inconsistent_annotation_throws:
  assumes "bothOrNeither annotation" and "regions annotation \<noteq> Some []"
  shows "addResourcesToBackend X projectId runtime annotation want =
           (Inl unexpectedAnnotation, want)"
  using assms(2)
  by (auto simp add: addResourcesToBackend_def forRegions_throw [OF assms(1)] regionsOf_def
      split: option.splits)

subsection \<open>Evaluating the examples\<close>

lemmas ex_defs = externals0_def emptyBackend_def bareAnnotation_def httpsAnnotation_def
  eventAnnotation_def everyFiveMinutes_def

lemmas code_defs = addResourcesToBackend_def regionsOf_def regionBody_def bothOrNeither_def
  buildTrigger_def targetIds_def baseFunction_def setVpcConnector_def copyPassthrough_def
  copyIfPresent_def scheduleBlock_def rewriteResource_def Let_def unexpectedAnnotation_def

subsection \<open>Region fan-out\<close>

text \<open>
  C1, as amended.  For an annotation with exactly one of \<^verbatim>\<open>httpsTrigger\<close> and
  \<^verbatim>\<open>eventTrigger\<close>, and whose \<^verbatim>\<open>regions\<close> is absent or a list of N \<open>\<ge>\<close> 1 regions:
  the call returns normally and appends exactly N function specs (one when \<^verbatim>\<open>regions\<close>
  is absent), all with id \<^verbatim>\<open>annotation.name\<close> and the given project, whose regions are
  the listed regions in their order (the default region when \<^verbatim>\<open>regions\<close> is absent).
  So the regions are pairwise distinct exactly when the listed ones are.
\<close>

theorem C1_region_fanout:
  assumes "\<not> bothOrNeither annotation" and "regions annotation \<noteq> Some []"
  shows "fst (addResourcesToBackend X projectId runtime annotation want) = Inr () \<and>
         (\<exists>fs. cloudFunctions (snd (addResourcesToBackend X projectId runtime annotation want))
                 = cloudFunctions want @ fs
              \<and> length fs = (case regions annotation of None \<Rightarrow> 1 | Some rs \<Rightarrow> length rs)
              \<and> map fn_region fs =
                  (case regions annotation of None \<Rightarrow> [functionsDefaultRegion X] | Some rs \<Rightarrow> rs)
              \<and> (\<forall>f \<in> set fs. fn_id f = name annotation \<and> fn_project f = projectId))"
proof -
  from assms(1) obtain t where t: "buildTrigger annotation = Inr t"
    using buildTrigger_ok by blast
  let ?rs = "regionsOf X annotation"
  let ?fs = "map (finalFunction X projectId runtime annotation t) ?rs"
  have "fst (addResourcesToBackend X projectId runtime annotation want) = Inr ()"
    unfolding addResourcesToBackend_def by (rule forRegions_fst [OF assms(1)])
  moreover have "cloudFunctions (snd (addResourcesToBackend X projectId runtime annotation want))
      = cloudFunctions want @ ?fs"
    unfolding addResourcesToBackend_def by (rule forRegions_cloudFunctions [OF assms(1) t])
  moreover have "length ?fs = (case regions annotation of None \<Rightarrow> 1 | Some rs \<Rightarrow> length rs)"
    by (simp add: regionsOf_def split: option.splits)
  moreover have "map fn_region ?fs =
      (case regions annotation of None \<Rightarrow> [functionsDefaultRegion X] | Some rs \<Rightarrow> rs)"
    by (simp add: regionsOf_def finalFunction_ids o_def split: option.splits)
  moreover have "\<forall>f \<in> set ?fs. fn_id f = name annotation \<and> fn_project f = projectId"
    by (auto simp: finalFunction_ids)
  ultimately show ?thesis by blast
qed

text \<open>The theorem at an HTTPS annotation with two regions and the empty backend.\<close>

theorem C1_region_fanout_witness:
  "\<not> bothOrNeither (httpsAnnotation\<lparr>regions := Some [''us-east1'', ''europe-west1'']\<rparr>) \<and>
   regions (httpsAnnotation\<lparr>regions := Some [''us-east1'', ''europe-west1'']\<rparr>) \<noteq> Some [] \<and>
   fst (addResourcesToBackend externals0 ''p'' ''nodejs14''
          (httpsAnnotation\<lparr>regions := Some [''us-east1'', ''europe-west1'']\<rparr>) emptyBackend) = Inr () \<and>
   length (cloudFunctions (snd (addResourcesToBackend externals0 ''p'' ''nodejs14''
          (httpsAnnotation\<lparr>regions := Some [''us-east1'', ''europe-west1'']\<rparr>) emptyBackend))) = 2 \<and>
   map fn_region (cloudFunctions (snd (addResourcesToBackend externals0 ''p'' ''nodejs14''
          (httpsAnnotation\<lparr>regions := Some [''us-east1'', ''europe-west1'']\<rparr>) emptyBackend)))
     = [''us-east1'', ''europe-west1'']"
proof -
  let ?a = "httpsAnnotation\<lparr>regions := Some [''us-east1'', ''europe-west1'']\<rparr>"
  have h1: "\<not> bothOrNeither ?a"
    by (simp add: bothOrNeither_def ex_defs)
  have h2: "regions ?a \<noteq> Some []"
    by simp
  have e: "cloudFunctions emptyBackend = []"
    by (simp add: emptyBackend_def)
  have r: "regions ?a = Some [''us-east1'', ''europe-west1'']"
    by simp
  from C1_region_fanout [OF h1 h2, of externals0 "''p''" "''nodejs14''" emptyBackend]
  show ?thesis
    unfolding e r using h1 by auto
qed

text \<open>
  C1 as stated fails: a region listed twice gives two function specs with the same
  region, and an annotation with no trigger kind gets nothing appended (the call throws).
\<close>

theorem C1_counterexample:
  "\<not> distinct (map fn_region (cloudFunctions (snd
       (addResourcesToBackend externals0 ''p'' ''nodejs14''
          (httpsAnnotation\<lparr>regions := Some [''us-east1'', ''us-east1'']\<rparr>) emptyBackend)))) \<and>
   addResourcesToBackend externals0 ''p'' ''nodejs14''
      (bareAnnotation\<lparr>regions := Some [''us-east1'']\<rparr>) emptyBackend
     = (Inl unexpectedAnnotation, emptyBackend)"
  by (simp add: ex_defs code_defs)

subsection \<open>The structural-consistency check\<close>

text \<open>
  C2 at an annotation with no trigger kind and \<^verbatim>\<open>regions: []\<close>: the loop body, and the
  check in it, never runs; the call returns normally and the backend is as it was.
\<close>

theorem C2_empty_regions_skip_check:
  "bothOrNeither (bareAnnotation\<lparr>regions := Some []\<rparr>) \<and>
   addResourcesToBackend externals0 ''p'' ''nodejs14''
      (bareAnnotation\<lparr>regions := Some []\<rparr>) emptyBackend = (Inr (), emptyBackend)"
  by (simp add: ex_defs code_defs)

text \<open>
  C10.  If the call throws the structural-consistency error, the backend is unchanged:
  no function, schedule or topic appended, \<^verbatim>\<open>requiredAPIs\<close> as before.
\<close>

theorem C10_throw_leaves_backend:
  assumes "fst (addResourcesToBackend X projectId runtime annotation want) =
             Inl unexpectedAnnotation"
  shows "snd (addResourcesToBackend X projectId runtime annotation want) = want"
proof (cases "bothOrNeither annotation")
  case True
  then show ?thesis
    by (simp add: addResourcesToBackend_def forRegions_throw)
next
  case False
  then have "fst (addResourcesToBackend X projectId runtime annotation want) = Inr ()"
    unfolding addResourcesToBackend_def by (rule forRegions_fst)
  with assms show ?thesis by simp
qed

text \<open>
  The theorem at an annotation with no trigger kind and a backend that already holds an
  environment variable and a required API.
\<close>

theorem C10_throw_leaves_backend_witness:
  "fst (addResourcesToBackend externals0 ''p'' ''nodejs14'' bareAnnotation
          (emptyBackend\<lparr>requiredAPIs := [''pubsub'' \<mapsto> ''pubsub.googleapis.com''],
                         environmentVariables := [''A'' \<mapsto> ''1'']\<rparr>))
     = Inl unexpectedAnnotation \<and>
   snd (addResourcesToBackend externals0 ''p'' ''nodejs14'' bareAnnotation
          (emptyBackend\<lparr>requiredAPIs := [''pubsub'' \<mapsto> ''pubsub.googleapis.com''],
                         environmentVariables := [''A'' \<mapsto> ''1'']\<rparr>))
     = emptyBackend\<lparr>requiredAPIs := [''pubsub'' \<mapsto> ''pubsub.googleapis.com''],
                     environmentVariables := [''A'' \<mapsto> ''1'']\<rparr>"
proof -
  have h: "fst (addResourcesToBackend externals0 ''p'' ''nodejs14'' bareAnnotation
          (emptyBackend\<lparr>requiredAPIs := [''pubsub'' \<mapsto> ''pubsub.googleapis.com''],
                         environmentVariables := [''A'' \<mapsto> ''1'']\<rparr>))
     = Inl unexpectedAnnotation"
    by (simp add: ex_defs code_defs)
  from h C10_throw_leaves_backend [OF h] show ?thesis by (rule conjI)
qed

subsection \<open>Scheduled functions\<close>

text \<open>
  C3.  For an annotation with a schedule and exactly one trigger kind the call returns
  normally, and for the regions processed, in order: the appended schedule and the
  appended topic both carry the id \<^verbatim>\<open>scheduleIdForFunction\<close> gives for the function's
  identity triple; the appended function has the annotation's labels with
  \<^verbatim>\<open>deployment-scheduled\<close> set to \<^verbatim>\<open>"true"\<close>; an event trigger's resource is the
  annotation's followed by \<^verbatim>\<open>/\<close> and that id; an HTTPS trigger is the one built without
  a schedule.  When a region was processed, \<^verbatim>\<open>requiredAPIs\<close> holds \<^verbatim>\<open>pubsub\<close> and
  \<^verbatim>\<open>scheduler\<close>.
\<close>

theorem C3_schedule_resources:
  assumes "schedule annotation = Some sched" and "\<not> bothOrNeither annotation"
  shows
    "(let W = snd (addResourcesToBackend X projectId runtime annotation want);
          rs = regionsOf X annotation;
          ident = (\<lambda>r. scheduleIdForFunction X (targetIds projectId annotation r))
      in fst (addResourcesToBackend X projectId runtime annotation want) = Inr () \<and>
         (\<exists>fs ss ts.
            cloudFunctions W = cloudFunctions want @ fs \<and>
            schedules W = schedules want @ ss \<and>
            topics W = topics want @ ts \<and>
            map sch_id ss = map ident rs \<and>
            map top_id ts = map ident rs \<and>
            map fn_region fs = rs \<and>
            (\<forall>f \<in> set fs.
               fn_labels f =
                 Some ((case labels annotation of None \<Rightarrow> Map.empty | Some m \<Rightarrow> m)
                         (''deployment-scheduled'' \<mapsto> ''true''))) \<and>
            (\<forall>e. httpsTrigger annotation = None \<and> eventTrigger annotation = Some e \<longrightarrow>
               map fn_trigger fs =
                 map (\<lambda>r. EventTrigger (eventType e) (resource e @ ''/'' @ ident r)
                            (failurePolicy annotation \<noteq> None)) rs) \<and>
            (\<forall>t. httpsTrigger annotation \<noteq> None \<and> buildTrigger annotation = Inr t \<longrightarrow>
               \<not> isEventTrigger t \<and> (\<forall>f \<in> set fs. fn_trigger f = t))) \<and>
         (rs \<noteq> [] \<longrightarrow>
            requiredAPIs W ''pubsub'' = Some ''pubsub.googleapis.com'' \<and>
            requiredAPIs W ''scheduler'' = Some ''cloudscheduler.googleapis.com''))"
proof -
  from assms(2) obtain t where t: "buildTrigger annotation = Inr t"
    using buildTrigger_ok by blast
  let ?W = "snd (addResourcesToBackend X projectId runtime annotation want)"
  let ?rs = "regionsOf X annotation"
  let ?ident = "\<lambda>r. scheduleIdForFunction X (targetIds projectId annotation r)"
  let ?fs = "map (finalFunction X projectId runtime annotation t) ?rs"
  let ?ss = "map (scheduleFor X projectId annotation sched) ?rs"
  let ?ts = "map (topicFor X projectId annotation) ?rs"
  have ok: "fst (addResourcesToBackend X projectId runtime annotation want) = Inr ()"
    unfolding addResourcesToBackend_def by (rule forRegions_fst [OF assms(2)])
  have fs: "cloudFunctions ?W = cloudFunctions want @ ?fs"
    unfolding addResourcesToBackend_def by (rule forRegions_cloudFunctions [OF assms(2) t])
  have ss: "schedules ?W = schedules want @ ?ss"
    unfolding addResourcesToBackend_def
    by (simp add: forRegions_schedules [OF assms(2) t] assms(1))
  have ts: "topics ?W = topics want @ ?ts"
    unfolding addResourcesToBackend_def
    by (simp add: forRegions_topics [OF assms(2) t] assms(1))
  have ids: "map sch_id ?ss = map ?ident ?rs" "map top_id ?ts = map ?ident ?rs"
    by (simp_all add: scheduleFor_def topicFor_def o_def)
  have regs: "map fn_region ?fs = ?rs"
    by (simp add: finalFunction_ids o_def)
  have labs: "\<forall>f \<in> set ?fs. fn_labels f =
                 Some ((case labels annotation of None \<Rightarrow> Map.empty | Some m \<Rightarrow> m)
                         (''deployment-scheduled'' \<mapsto> ''true''))"
    by (auto simp: finalFunction_labels assms(1))
  have ev: "\<forall>e. httpsTrigger annotation = None \<and> eventTrigger annotation = Some e \<longrightarrow>
               map fn_trigger ?fs =
                 map (\<lambda>r. EventTrigger (eventType e) (resource e @ ''/'' @ ?ident r)
                            (failurePolicy annotation \<noteq> None)) ?rs"
  proof (intro allI impI)
    fix e assume e: "httpsTrigger annotation = None \<and> eventTrigger annotation = Some e"
    then have "t = EventTrigger (eventType e) (resource e) (failurePolicy annotation \<noteq> None)"
      using t buildTrigger_event by fastforce
    then show "map fn_trigger ?fs =
                 map (\<lambda>r. EventTrigger (eventType e) (resource e @ ''/'' @ ?ident r)
                            (failurePolicy annotation \<noteq> None)) ?rs"
      by (simp add: finalFunction_trigger rewriteResource_def assms(1) o_def)
  qed
  have ht: "\<forall>t'. httpsTrigger annotation \<noteq> None \<and> buildTrigger annotation = Inr t' \<longrightarrow>
               \<not> isEventTrigger t' \<and> (\<forall>f \<in> set ?fs. fn_trigger f = t')"
  proof (intro allI impI)
    fix t' assume h: "httpsTrigger annotation \<noteq> None \<and> buildTrigger annotation = Inr t'"
    then obtain b where "t = HttpsTrigger b" and "t' = t"
      using t buildTrigger_https by fastforce
    then show "\<not> isEventTrigger t' \<and> (\<forall>f \<in> set ?fs. fn_trigger f = t')"
      by (auto simp: finalFunction_trigger rewriteResource_def assms(1))
  qed
  have apis: "?rs \<noteq> [] \<longrightarrow>
            requiredAPIs ?W ''pubsub'' = Some ''pubsub.googleapis.com'' \<and>
            requiredAPIs ?W ''scheduler'' = Some ''cloudscheduler.googleapis.com''"
    unfolding addResourcesToBackend_def
    by (simp add: forRegions_requiredAPIs [OF assms(2) t] assms(1))
  from fs ss ts ids regs labs ev ht
  have "\<exists>fs ss ts.
            cloudFunctions ?W = cloudFunctions want @ fs \<and>
            schedules ?W = schedules want @ ss \<and>
            topics ?W = topics want @ ts \<and>
            map sch_id ss = map ?ident ?rs \<and>
            map top_id ts = map ?ident ?rs \<and>
            map fn_region fs = ?rs \<and>
            (\<forall>f \<in> set fs.
               fn_labels f =
                 Some ((case labels annotation of None \<Rightarrow> Map.empty | Some m \<Rightarrow> m)
                         (''deployment-scheduled'' \<mapsto> ''true''))) \<and>
            (\<forall>e. httpsTrigger annotation = None \<and> eventTrigger annotation = Some e \<longrightarrow>
               map fn_trigger fs =
                 map (\<lambda>r. EventTrigger (eventType e) (resource e @ ''/'' @ ?ident r)
                            (failurePolicy annotation \<noteq> None)) ?rs) \<and>
            (\<forall>t. httpsTrigger annotation \<noteq> None \<and> buildTrigger annotation = Inr t \<longrightarrow>
               \<not> isEventTrigger t \<and> (\<forall>f \<in> set fs. fn_trigger f = t))"
    by blast
  with ok apis show ?thesis
    unfolding Let_def by blast
qed

text \<open>
  The theorem at a scheduled event annotation with one label and no \<^verbatim>\<open>regions\<close>.
\<close>

theorem C3_schedule_resources_witness:
  "schedule (eventAnnotation\<lparr>labels := Some [''team'' \<mapsto> ''core''],
                              schedule := Some everyFiveMinutes\<rparr>) = Some everyFiveMinutes \<and>
   \<not> bothOrNeither (eventAnnotation\<lparr>labels := Some [''team'' \<mapsto> ''core''],
                                     schedule := Some everyFiveMinutes\<rparr>) \<and>
   fst (addResourcesToBackend externals0 ''p'' ''nodejs14''
          (eventAnnotation\<lparr>labels := Some [''team'' \<mapsto> ''core''],
                            schedule := Some everyFiveMinutes\<rparr>) emptyBackend) = Inr () \<and>
   map sch_id (schedules (snd (addResourcesToBackend externals0 ''p'' ''nodejs14''
          (eventAnnotation\<lparr>labels := Some [''team'' \<mapsto> ''core''],
                            schedule := Some everyFiveMinutes\<rparr>) emptyBackend)))
     = [''firebase-schedule-tick-us-central1''] \<and>
   map top_id (topics (snd (addResourcesToBackend externals0 ''p'' ''nodejs14''
          (eventAnnotation\<lparr>labels := Some [''team'' \<mapsto> ''core''],
                            schedule := Some everyFiveMinutes\<rparr>) emptyBackend)))
     = [''firebase-schedule-tick-us-central1''] \<and>
   map fn_trigger (cloudFunctions (snd (addResourcesToBackend externals0 ''p'' ''nodejs14''
          (eventAnnotation\<lparr>labels := Some [''team'' \<mapsto> ''core''],
                            schedule := Some everyFiveMinutes\<rparr>) emptyBackend)))
     = [EventTrigger ''google.pubsub.topic.publish''
          ''projects/p/topics/firebase-schedule-tick-us-central1'' False] \<and>
   map fn_labels (cloudFunctions (snd (addResourcesToBackend externals0 ''p'' ''nodejs14''
          (eventAnnotation\<lparr>labels := Some [''team'' \<mapsto> ''core''],
                            schedule := Some everyFiveMinutes\<rparr>) emptyBackend)))
     = [Some [''team'' \<mapsto> ''core'', ''deployment-scheduled'' \<mapsto> ''true'']] \<and>
   requiredAPIs (snd (addResourcesToBackend externals0 ''p'' ''nodejs14''
          (eventAnnotation\<lparr>labels := Some [''team'' \<mapsto> ''core''],
                            schedule := Some everyFiveMinutes\<rparr>) emptyBackend)) ''pubsub''
     = Some ''pubsub.googleapis.com'' \<and>
   requiredAPIs (snd (addResourcesToBackend externals0 ''p'' ''nodejs14''
          (eventAnnotation\<lparr>labels := Some [''team'' \<mapsto> ''core''],
                            schedule := Some everyFiveMinutes\<rparr>) emptyBackend)) ''scheduler''
     = Some ''cloudscheduler.googleapis.com''"
proof -
  let ?a = "eventAnnotation\<lparr>labels := Some [''team'' \<mapsto> ''core''],
                            schedule := Some everyFiveMinutes\<rparr>"
  let ?W = "snd (addResourcesToBackend externals0 ''p'' ''nodejs14'' ?a emptyBackend)"
  have h1: "schedule ?a = Some everyFiveMinutes"
    by simp
  have h2: "\<not> bothOrNeither ?a"
    by (simp add: bothOrNeither_def ex_defs)
  have e: "cloudFunctions emptyBackend = []" "schedules emptyBackend = []"
      "topics emptyBackend = []"
    by (simp_all add: emptyBackend_def)
  have r: "regionsOf externals0 ?a = [''us-central1'']"
    by (simp add: regionsOf_def ex_defs)
  have i: "scheduleIdForFunction externals0 (targetIds ''p'' ?a ''us-central1'')
             = ''firebase-schedule-tick-us-central1''"
    by (simp add: targetIds_def ex_defs)
  have a: "httpsTrigger ?a = None"
      "eventTrigger ?a = Some \<lparr>eventType = ''google.pubsub.topic.publish'',
                resource = ''projects/p/topics'',
                service = ''pubsub.googleapis.com''\<rparr>"
      "failurePolicy ?a = None" "labels ?a = Some [''team'' \<mapsto> ''core'']"
    by (simp_all add: eventAnnotation_def bareAnnotation_def)
  from C3_schedule_resources [OF h1 h2, of externals0 "''p''" "''nodejs14''" emptyBackend]
  obtain fs ss ts where
    ok: "fst (addResourcesToBackend externals0 ''p'' ''nodejs14'' ?a emptyBackend) = Inr ()" and
    eqs: "cloudFunctions ?W = fs" "schedules ?W = ss" "topics ?W = ts" and
    ids: "map sch_id ss = [''firebase-schedule-tick-us-central1'']"
         "map top_id ts = [''firebase-schedule-tick-us-central1'']" and
    reg: "map fn_region fs = [''us-central1'']" and
    lab: "\<forall>f \<in> set fs. fn_labels f
            = Some [''team'' \<mapsto> ''core'', ''deployment-scheduled'' \<mapsto> ''true'']" and
    trg: "map fn_trigger fs = [EventTrigger ''google.pubsub.topic.publish''
          (''projects/p/topics'' @ ''/'' @ ''firebase-schedule-tick-us-central1'') False]" and
    api: "requiredAPIs ?W ''pubsub'' = Some ''pubsub.googleapis.com''"
         "requiredAPIs ?W ''scheduler'' = Some ''cloudscheduler.googleapis.com''"
    unfolding Let_def e r a by (auto simp: i)
  from reg lab have "map fn_labels fs
      = [Some [''team'' \<mapsto> ''core'', ''deployment-scheduled'' \<mapsto> ''true'']]"
    by (cases fs) auto
  with h1 h2 ok eqs ids trg api show ?thesis
    by simp
qed

subsection \<open>HTTPS triggers\<close>

text \<open>
  C5.  For an annotation with an HTTPS trigger (and no event trigger), every appended
  function has an HTTPS trigger whose \<^verbatim>\<open>allowInsecure\<close> is the explicit value when
  the field is present; when it is absent, it is true if the platform is absent or
  \<^verbatim>\<open>gcfv1\<close> and false if the platform is \<^verbatim>\<open>gcfv2\<close>.
\<close>

theorem C5_allowInsecure:
  assumes "httpsTrigger annotation = Some h" and "eventTrigger annotation = None"
  shows "fst (addResourcesToBackend X projectId runtime annotation want) = Inr () \<and>
    (\<exists>fs. cloudFunctions (snd (addResourcesToBackend X projectId runtime annotation want))
             = cloudFunctions want @ fs
         \<and> length fs = length (regionsOf X annotation)
         \<and> (\<forall>f \<in> set fs.
              (\<forall>b. allowInsecure h = Some b \<longrightarrow> fn_trigger f = HttpsTrigger b) \<and>
              (allowInsecure h = None \<and> (platform annotation = None \<or> platform annotation = Some gcfv1)
                 \<longrightarrow> fn_trigger f = HttpsTrigger True) \<and>
              (allowInsecure h = None \<and> platform annotation = Some gcfv2
                 \<longrightarrow> fn_trigger f = HttpsTrigger False)))"
proof -
  let ?t = "HttpsTrigger (case allowInsecure h of
                            Some b \<Rightarrow> b
                          | None \<Rightarrow> platform annotation = None \<or> platform annotation = Some gcfv1)"
  let ?fs = "map (finalFunction X projectId runtime annotation ?t) (regionsOf X annotation)"
  from assms have c: "\<not> bothOrNeither annotation"
    by (simp add: bothOrNeither_def)
  have t: "buildTrigger annotation = Inr ?t"
    by (rule buildTrigger_https [OF assms(1)])
  have tr: "fn_trigger (finalFunction X projectId runtime annotation (HttpsTrigger b) r)
              = HttpsTrigger b" for r b
    by (simp add: finalFunction_trigger rewriteResource_def split: option.splits)
  have "fst (addResourcesToBackend X projectId runtime annotation want) = Inr ()"
    unfolding addResourcesToBackend_def by (rule forRegions_fst [OF c])
  moreover have "cloudFunctions (snd (addResourcesToBackend X projectId runtime annotation want))
      = cloudFunctions want @ ?fs"
    unfolding addResourcesToBackend_def by (rule forRegions_cloudFunctions [OF c t])
  moreover have "length ?fs = length (regionsOf X annotation)"
    by simp
  moreover have "\<forall>f \<in> set ?fs.
              (\<forall>b. allowInsecure h = Some b \<longrightarrow> fn_trigger f = HttpsTrigger b) \<and>
              (allowInsecure h = None \<and> (platform annotation = None \<or> platform annotation = Some gcfv1)
                 \<longrightarrow> fn_trigger f = HttpsTrigger True) \<and>
              (allowInsecure h = None \<and> platform annotation = Some gcfv2
                 \<longrightarrow> fn_trigger f = HttpsTrigger False)"
    by (auto simp: tr)
  ultimately show ?thesis by blast
qed

text \<open>The theorem at a second-generation HTTPS annotation without \<^verbatim>\<open>allowInsecure\<close>.\<close>

theorem C5_allowInsecure_witness:
  "httpsTrigger (httpsAnnotation\<lparr>platform := Some gcfv2\<rparr>) = Some \<lparr>allowInsecure = None\<rparr> \<and>
   eventTrigger (httpsAnnotation\<lparr>platform := Some gcfv2\<rparr>) = None \<and>
   map fn_trigger (cloudFunctions (snd (addResourcesToBackend externals0 ''p'' ''nodejs14''
      (httpsAnnotation\<lparr>platform := Some gcfv2\<rparr>) emptyBackend))) = [HttpsTrigger False]"
proof -
  let ?a = "httpsAnnotation\<lparr>platform := Some gcfv2\<rparr>"
  have h1: "httpsTrigger ?a = Some \<lparr>allowInsecure = None\<rparr>"
    by (simp add: httpsAnnotation_def)
  have h2: "eventTrigger ?a = None"
    by (simp add: httpsAnnotation_def bareAnnotation_def)
  have e: "cloudFunctions emptyBackend = []"
    by (simp add: emptyBackend_def)
  have r: "regionsOf externals0 ?a = [''us-central1'']"
    by (simp add: regionsOf_def ex_defs)
  have p: "platform ?a = Some gcfv2"
    by simp
  from C5_allowInsecure [OF h1 h2, of externals0 "''p''" "''nodejs14''" emptyBackend]
  obtain fs where fs: "cloudFunctions (snd (addResourcesToBackend externals0 ''p'' ''nodejs14''
      ?a emptyBackend)) = fs" "length fs = 1" "\<forall>f \<in> set fs. fn_trigger f = HttpsTrigger False"
    unfolding e r p by auto
  from fs(2,3) have "map fn_trigger fs = [HttpsTrigger False]"
    by (cases fs) auto
  with fs(1) h1 h2 show ?thesis by simp
qed

subsection \<open>VPC connectors\<close>

text \<open>
  C8, as amended.  For an annotation with exactly one trigger kind and a
  \<^verbatim>\<open>vpcConnector\<close> value, every appended function has: no \<^verbatim>\<open>vpcConnector\<close> when the
  value is the empty string; the value unchanged when it contains \<^verbatim>\<open>/\<close>; otherwise
  \<^verbatim>\<open>projects/{projectId}/locations/{region}/connectors/\<close> followed by the value, with
  the function's own region.
\<close>

theorem C8_vpcConnector:
  assumes "vpcConnector annotation = Some v" and "\<not> bothOrNeither annotation"
  shows "\<exists>fs. cloudFunctions (snd (addResourcesToBackend X projectId runtime annotation want))
             = cloudFunctions want @ fs
         \<and> map fn_region fs = regionsOf X annotation
         \<and> (\<forall>f \<in> set fs.
              fn_vpcConnector f =
                (if v = [] then None
                 else if CHR ''/'' \<in> set v then Some v
                 else Some (''projects/'' @ projectId @ ''/locations/'' @ fn_region f
                              @ ''/connectors/'' @ v)))"
proof -
  from assms(2) obtain t where t: "buildTrigger annotation = Inr t"
    using buildTrigger_ok by blast
  let ?fs = "map (finalFunction X projectId runtime annotation t) (regionsOf X annotation)"
  have "cloudFunctions (snd (addResourcesToBackend X projectId runtime annotation want))
      = cloudFunctions want @ ?fs"
    unfolding addResourcesToBackend_def by (rule forRegions_cloudFunctions [OF assms(2) t])
  moreover have "map fn_region ?fs = regionsOf X annotation"
    by (simp add: finalFunction_ids o_def)
  moreover have "\<forall>f \<in> set ?fs.
              fn_vpcConnector f =
                (if v = [] then None
                 else if CHR ''/'' \<in> set v then Some v
                 else Some (''projects/'' @ projectId @ ''/locations/'' @ fn_region f
                              @ ''/connectors/'' @ v))"
    using assms(1) by (auto simp: finalFunction_vpcConnector finalFunction_ids)
  ultimately show ?thesis by blast
qed

text \<open>The theorem at an HTTPS annotation with the short connector name \<^verbatim>\<open>conn\<close>.\<close>

theorem C8_vpcConnector_witness:
  "vpcConnector (httpsAnnotation\<lparr>vpcConnector := Some ''conn''\<rparr>) = Some ''conn'' \<and>
   \<not> bothOrNeither (httpsAnnotation\<lparr>vpcConnector := Some ''conn''\<rparr>) \<and>
   map fn_vpcConnector (cloudFunctions (snd (addResourcesToBackend externals0 ''p'' ''nodejs14''
      (httpsAnnotation\<lparr>vpcConnector := Some ''conn''\<rparr>) emptyBackend)))
     = [Some ''projects/p/locations/us-central1/connectors/conn'']"
proof -
  let ?a = "httpsAnnotation\<lparr>vpcConnector := Some ''conn''\<rparr>"
  have h1: "vpcConnector ?a = Some ''conn''"
    by simp
  have h2: "\<not> bothOrNeither ?a"
    by (simp add: bothOrNeither_def ex_defs)
  have e: "cloudFunctions emptyBackend = []"
    by (simp add: emptyBackend_def)
  have r: "regionsOf externals0 ?a = [''us-central1'']"
    by (simp add: regionsOf_def ex_defs)
  from C8_vpcConnector [OF h1 h2, of externals0 "''p''" "''nodejs14''" emptyBackend]
  obtain fs where fs: "cloudFunctions (snd (addResourcesToBackend externals0 ''p'' ''nodejs14''
      ?a emptyBackend)) = fs" "map fn_region fs = [''us-central1'']"
      "\<forall>f \<in> set fs. fn_vpcConnector f =
          Some (''projects/'' @ ''p'' @ ''/locations/'' @ fn_region f @ ''/connectors/'' @ ''conn'')"
    unfolding e r by auto
  from fs(2,3) have "map fn_vpcConnector fs = [Some ''projects/p/locations/us-central1/connectors/conn'']"
    by (cases fs) auto
  with fs(1) h1 h2 show ?thesis by simp
qed

text \<open>
  C8 as stated fails at the empty string: it contains no \<^verbatim>\<open>/\<close>, yet the function
  spec gets no \<^verbatim>\<open>vpcConnector\<close> at all (\<^verbatim>\<open>if (annotation.vpcConnector)\<close> is false).
\<close>

theorem C8_counterexample:
  "vpcConnector (httpsAnnotation\<lparr>vpcConnector := Some ''''\<rparr>) = Some '''' \<and>
   map fn_vpcConnector (cloudFunctions (snd (addResourcesToBackend externals0 ''p'' ''nodejs14''
      (httpsAnnotation\<lparr>vpcConnector := Some ''''\<rparr>) emptyBackend))) = [None]"
  by (simp add: ex_defs code_defs)

section \<open>Properties of the config export\<close>

subsection \<open>convertKey\<close>

lemma replaceAll_map:
  "replaceAll c [d] s = map (\<lambda>x. if x = c then d else x) s"
  by (induction s) (simp_all add: replaceAll_def)

lemma baseKey_transformedKey:
  "replaceAll (CHR ''-'') ''_'' (replaceAll (CHR ''.'') ''_'' (toUpperCase k))
     = transformedKey toUpperCase k"
  by (simp add: replaceAll_map transformedKey_def)

text \<open>
  C6.  For every key, prefix, validator and \<^verbatim>\<open>toUpperCase\<close>: \<open>convertKey\<close> returns the
  transformed key when it passes validation; when it fails validation with a
  validation-kind error and the prefixed key passes, it returns the prefix followed by the
  transformed key; when the prefixed key fails validation too, that validation failure is
  thrown to the caller.
\<close>

theorem C6_convertKey:
  "(validateKey (transformedKey toUpperCase configKey) = Inr () \<longrightarrow>
      convertKey toUpperCase validateKey configKey prefix
        = Inr (transformedKey toUpperCase configKey)) \<and>
   (\<forall>k m. validateKey (transformedKey toUpperCase configKey) = Inl (KeyValidationError k m) \<and>
          validateKey (prefix @ transformedKey toUpperCase configKey) = Inr () \<longrightarrow>
      convertKey toUpperCase validateKey configKey prefix
        = Inr (prefix @ transformedKey toUpperCase configKey)) \<and>
   (\<forall>k m k' m'. validateKey (transformedKey toUpperCase configKey) = Inl (KeyValidationError k m) \<and>
          validateKey (prefix @ transformedKey toUpperCase configKey)
            = Inl (KeyValidationError k' m') \<longrightarrow>
      convertKey toUpperCase validateKey configKey prefix = Inl (KeyValidationError k' m'))"
  by (simp add: convertKey_def baseKey_transformedKey Let_def)

text \<open>
  The theorem with the validator \<open>reservedPrefix\<close> on keys of ASCII characters: a key
  that passes, a key that passes once prefixed, and the same key with the empty prefix.
\<close>

theorem C6_convertKey_witness:
  "reservedPrefix (transformedKey upperASCII ''some-service.key'') = Inr () \<and>
   convertKey upperASCII reservedPrefix ''some-service.key'' ''CONFIG_''
     = Inr ''SOME_SERVICE_KEY'' \<and>
   reservedPrefix (transformedKey upperASCII ''firebase.key'')
     = Inl (KeyValidationError ''FIREBASE_KEY'' ''starts with a reserved prefix'') \<and>
   reservedPrefix (''CONFIG_'' @ transformedKey upperASCII ''firebase.key'') = Inr () \<and>
   convertKey upperASCII reservedPrefix ''firebase.key'' ''CONFIG_''
     = Inr ''CONFIG_FIREBASE_KEY'' \<and>
   reservedPrefix ('''' @ transformedKey upperASCII ''firebase.key'')
     = Inl (KeyValidationError ''FIREBASE_KEY'' ''starts with a reserved prefix'') \<and>
   convertKey upperASCII reservedPrefix ''firebase.key'' ''''
     = Inl (KeyValidationError ''FIREBASE_KEY'' ''starts with a reserved prefix'')"
proof -
  have t1: "transformedKey upperASCII ''some-service.key'' = ''SOME_SERVICE_KEY''"
    by (simp add: transformedKey_def upperASCII_def)
  have t2: "transformedKey upperASCII ''firebase.key'' = ''FIREBASE_KEY''"
    by (simp add: transformedKey_def upperASCII_def)
  have v1: "reservedPrefix ''SOME_SERVICE_KEY'' = Inr ()"
    by (simp add: reservedPrefix_def)
  have v2: "reservedPrefix ''FIREBASE_KEY''
     = Inl (KeyValidationError ''FIREBASE_KEY'' ''starts with a reserved prefix'')"
    by (simp add: reservedPrefix_def)
  have v3: "reservedPrefix (''CONFIG_'' @ ''FIREBASE_KEY'') = Inr ()"
    by (simp add: reservedPrefix_def)
  have v4: "reservedPrefix ('''' @ ''FIREBASE_KEY'')
     = Inl (KeyValidationError ''FIREBASE_KEY'' ''starts with a reserved prefix'')"
    by (simp add: reservedPrefix_def)
  from C6_convertKey [of reservedPrefix upperASCII "''some-service.key''" "''CONFIG_''"]
  have c1: "convertKey upperASCII reservedPrefix ''some-service.key'' ''CONFIG_''
              = Inr ''SOME_SERVICE_KEY''"
    unfolding t1 using v1 by simp
  from C6_convertKey [of reservedPrefix upperASCII "''firebase.key''" "''CONFIG_''"]
  have c2: "convertKey upperASCII reservedPrefix ''firebase.key'' ''CONFIG_''
              = Inr ''CONFIG_FIREBASE_KEY''"
    unfolding t2 using v2 v3 by simp
  from C6_convertKey [of reservedPrefix upperASCII "''firebase.key''" "''''"]
  have c3: "convertKey upperASCII reservedPrefix ''firebase.key'' ''''
     = Inl (KeyValidationError ''FIREBASE_KEY'' ''starts with a reserved prefix'')"
    unfolding t2 using v2 v4 by simp
  show ?thesis
    unfolding t1 t2 using v1 v2 v3 v4 c1 c2 c3 by simp
qed

text \<open>
  Whatever \<open>convertKey\<close> throws comes from validating the prefixed key.  The first
  validation is inside \<^verbatim>\<open>try\<close>: were the validator to fail there with an error of
  another kind, which its contract excludes, the \<^verbatim>\<open>catch\<close> block would end without a
  throw and the unprefixed key would be returned.
\<close>

lemma convertKey_failure_is_of_prefixed_key:
  assumes "convertKey toUpperCase validateKey configKey prefix = Inl e"
  shows "validateKey (prefix @ transformedKey toUpperCase configKey) = Inl e"
  using assms
  by (simp add: convertKey_def baseKey_transformedKey Let_def split: sum.splits error.splits)

lemma convertKey_first_validation_of_other_kind:
  assumes "validateKey (transformedKey toUpperCase configKey) = Inl e"
    and "\<not> isValidationFailure e"
  shows "convertKey toUpperCase validateKey configKey prefix
           = Inr (transformedKey toUpperCase configKey)"
  using assms
  by (cases e) (simp_all add: convertKey_def baseKey_transformedKey isValidationFailure_def)

lemma convertKey_under_contract:
  assumes "meetsContract validateKey"
    and "convertKey toUpperCase validateKey configKey prefix = Inl e"
  shows "\<exists>m. e = KeyValidationError (prefix @ transformedKey toUpperCase configKey) m"
  using assms(1) convertKey_failure_is_of_prefixed_key [OF assms(2)]
  by (simp add: meetsContract_def)

subsection \<open>configToEnv\<close>

text \<open>
  The loop with its two accumulators, and its early exit, is the sorting of the leaves by
  the outcome of \<open>convertKey\<close>.
\<close>

lemma sorted_Nil:
  "otherFailures toUpperCase validateKey prefix [] = []"
  "successEntries toUpperCase validateKey prefix [] = []"
  "errorEntries toUpperCase validateKey prefix [] = []"
  by (simp_all add: otherFailures_def successEntries_def errorEntries_def map_filter_simps)

lemma otherFailures_Cons:
  "otherFailures toUpperCase validateKey prefix ((configKey, v) # leaves) =
     (case convertKey toUpperCase validateKey configKey prefix of
        Inl e \<Rightarrow>
          if isValidationFailure e then otherFailures toUpperCase validateKey prefix leaves
          else e # otherFailures toUpperCase validateKey prefix leaves
      | Inr envKey \<Rightarrow> otherFailures toUpperCase validateKey prefix leaves)"
  by (simp add: otherFailures_def map_filter_simps split: sum.splits)

lemma successEntries_Cons:
  "successEntries toUpperCase validateKey prefix ((configKey, v) # leaves) =
     (case convertKey toUpperCase validateKey configKey prefix of
        Inr envKey \<Rightarrow>
          \<lparr>origKey = configKey, newKey = envKey, value' = v, err = None\<rparr>
            # successEntries toUpperCase validateKey prefix leaves
      | Inl e \<Rightarrow> successEntries toUpperCase validateKey prefix leaves)"
  by (simp add: successEntries_def map_filter_simps split: sum.splits)

lemma errorEntries_Cons:
  "errorEntries toUpperCase validateKey prefix ((configKey, v) # leaves) =
     (case convertKey toUpperCase validateKey configKey prefix of
        Inl (KeyValidationError k m) \<Rightarrow>
          \<lparr>origKey = configKey, newKey = k, value' = v, err = Some m\<rparr>
            # errorEntries toUpperCase validateKey prefix leaves
      | _ \<Rightarrow> errorEntries toUpperCase validateKey prefix leaves)"
  by (simp add: errorEntries_def map_filter_simps split: sum.splits error.splits)

lemma configToEnvLoop_sorted:
  "configToEnvLoop toUpperCase validateKey prefix leaves succ errs =
     (case otherFailures toUpperCase validateKey prefix leaves of
        [] \<Rightarrow> Inr \<lparr>success = succ @ successEntries toUpperCase validateKey prefix leaves,
                   errors = errs @ errorEntries toUpperCase validateKey prefix leaves\<rparr>
      | e # es \<Rightarrow> Inl (FirebaseError ''Unexpected error while converting config'' (Some e)))"
proof (induction leaves arbitrary: succ errs)
  case Nil
  show ?case
    by (simp add: sorted_Nil)
next
  case (Cons leaf leaves)
  obtain configKey v where leaf: "leaf = (configKey, v)"
    by (cases leaf)
  show ?case
  proof (cases "convertKey toUpperCase validateKey configKey prefix")
    case (Inr envKey)
    then show ?thesis
      unfolding leaf
      by (simp add: Cons.IH otherFailures_Cons successEntries_Cons errorEntries_Cons
          split: list.splits)
  next
    case (Inl e)
    then show ?thesis
      unfolding leaf
      by (cases e)
         (simp_all add: Cons.IH otherFailures_Cons successEntries_Cons errorEntries_Cons
            isValidationFailure_def split: list.splits)
  qed
qed

lemma errorEntries_origin:
  assumes "x \<in> set (errorEntries toUpperCase validateKey prefix leaves)"
  shows "\<exists>configKey v k m.
           (configKey, v) \<in> set leaves \<and>
           convertKey toUpperCase validateKey configKey prefix = Inl (KeyValidationError k m) \<and>
           x = \<lparr>origKey = configKey, newKey = k, value' = v, err = Some m\<rparr>"
  using assms
proof (induction leaves)
  case Nil
  then show ?case
    by (simp add: sorted_Nil)
next
  case (Cons leaf leaves)
  obtain configKey v where leaf: "leaf = (configKey, v)"
    by (cases leaf)
  from Cons.prems consider
      (here) k m where
        "convertKey toUpperCase validateKey configKey prefix = Inl (KeyValidationError k m)"
        "x = \<lparr>origKey = configKey, newKey = k, value' = v, err = Some m\<rparr>"
    | (later) "x \<in> set (errorEntries toUpperCase validateKey prefix leaves)"
    unfolding leaf errorEntries_Cons
    by (auto split: sum.splits error.splits)
  then show ?case
  proof cases
    case here
    then show ?thesis
      unfolding leaf by auto
  next
    case later
    from Cons.IH [OF this] show ?thesis
      by auto
  qed
qed

lemma errorEntries_of_prefixed_key:
  assumes "x \<in> set (errorEntries toUpperCase validateKey prefix leaves)"
  shows "\<exists>m. err x = Some m \<and>
             validateKey (prefix @ transformedKey toUpperCase (origKey x))
               = Inl (KeyValidationError (newKey x) m)"
proof -
  from errorEntries_origin [OF assms] obtain configKey v k m where
    "convertKey toUpperCase validateKey configKey prefix = Inl (KeyValidationError k m)"
    "x = \<lparr>origKey = configKey, newKey = k, value' = v, err = Some m\<rparr>"
    by blast
  with convertKey_failure_is_of_prefixed_key [of toUpperCase validateKey configKey prefix]
  show ?thesis
    by simp
qed

lemma otherFailures_under_contract:
  assumes "meetsContract validateKey"
  shows "otherFailures toUpperCase validateKey prefix leaves = []"
proof -
  have "convertKey toUpperCase validateKey configKey prefix = Inl e \<Longrightarrow> isValidationFailure e"
    for configKey e
    using convertKey_under_contract [OF assms] by (fastforce simp: isValidationFailure_def)
  then show ?thesis
    by (induction leaves) (auto simp: sorted_Nil otherFailures_Cons split: sum.splits)
qed

lemma errorEntries_under_contract:
  assumes "meetsContract validateKey"
    and "x \<in> set (errorEntries toUpperCase validateKey prefix leaves)"
  shows "newKey x = prefix @ transformedKey toUpperCase (origKey x)"
proof -
  from errorEntries_of_prefixed_key [OF assms(2)] obtain m where
    "validateKey (prefix @ transformedKey toUpperCase (origKey x))
       = Inl (KeyValidationError (newKey x) m)"
    by blast
  with assms(1) show ?thesis
    by (auto simp: meetsContract_def)
qed

text \<open>
  C4.  For every list of leaves, the call is decided leaf by leaf by what \<open>convertKey\<close>
  does on the leaf's key.  If no conversion fails with an error of another kind, the call
  returns, with one success entry for each leaf whose conversion succeeds and one error
  entry for each leaf whose conversion fails with a validation-kind error, so that such a
  failure is recorded and not thrown; the error entry carries the key and the message of
  the failure, which is the failure of validating the attempted (prefixed) key.  If the
  conversion of any leaf fails with an error of another kind, the whole call throws, a
  \<^verbatim>\<open>FirebaseError\<close> wrapping the first such error.  With a validator that meets its
  contract the call always returns, and the key of an error entry is the prefix followed
  by the transformed key.
\<close>

theorem C4_configToEnv:
  "configToEnv toUpperCase validateKey flatten configs prefix =
     (case otherFailures toUpperCase validateKey prefix (flatten configs) of
        [] \<Rightarrow> Inr \<lparr>success = successEntries toUpperCase validateKey prefix (flatten configs),
                   errors = errorEntries toUpperCase validateKey prefix (flatten configs)\<rparr>
      | e # es \<Rightarrow> Inl (FirebaseError ''Unexpected error while converting config'' (Some e))) \<and>
   (\<forall>x \<in> set (errorEntries toUpperCase validateKey prefix (flatten configs)).
      \<exists>m. err x = Some m \<and>
          validateKey (prefix @ transformedKey toUpperCase (origKey x))
            = Inl (KeyValidationError (newKey x) m)) \<and>
   (meetsContract validateKey \<longrightarrow>
      configToEnv toUpperCase validateKey flatten configs prefix =
        Inr \<lparr>success = successEntries toUpperCase validateKey prefix (flatten configs),
             errors = errorEntries toUpperCase validateKey prefix (flatten configs)\<rparr> \<and>
      (\<forall>x \<in> set (errorEntries toUpperCase validateKey prefix (flatten configs)).
         newKey x = prefix @ transformedKey toUpperCase (origKey x)))"
proof (intro conjI impI ballI)
  show "configToEnv toUpperCase validateKey flatten configs prefix =
     (case otherFailures toUpperCase validateKey prefix (flatten configs) of
        [] \<Rightarrow> Inr \<lparr>success = successEntries toUpperCase validateKey prefix (flatten configs),
                   errors = errorEntries toUpperCase validateKey prefix (flatten configs)\<rparr>
      | e # es \<Rightarrow> Inl (FirebaseError ''Unexpected error while converting config'' (Some e)))"
    by (simp add: configToEnv_def configToEnvLoop_sorted split: list.splits)
next
  fix x assume "x \<in> set (errorEntries toUpperCase validateKey prefix (flatten configs))"
  then show "\<exists>m. err x = Some m \<and>
          validateKey (prefix @ transformedKey toUpperCase (origKey x))
            = Inl (KeyValidationError (newKey x) m)"
    by (rule errorEntries_of_prefixed_key)
next
  assume "meetsContract validateKey"
  then show "configToEnv toUpperCase validateKey flatten configs prefix =
        Inr \<lparr>success = successEntries toUpperCase validateKey prefix (flatten configs),
             errors = errorEntries toUpperCase validateKey prefix (flatten configs)\<rparr>"
    by (simp add: configToEnv_def configToEnvLoop_sorted otherFailures_under_contract)
next
  fix x
  assume "meetsContract validateKey"
    and "x \<in> set (errorEntries toUpperCase validateKey prefix (flatten configs))"
  then show "newKey x = prefix @ transformedKey toUpperCase (origKey x)"
    by (rule errorEntries_under_contract)
qed

text \<open>
  The theorem at two leaves, the validator \<open>reservedPrefix\<close> and the empty prefix: the
  first leaf is a success, the second is collected with the key that failed validation.
\<close>

theorem C4_configToEnv_witness:
  "configToEnv upperASCII reservedPrefix (\<lambda>c. c)
     [(''some-service.key'', ''1''), (''firebase.key'', ''2'')] ''''
     = Inr \<lparr>success = [\<lparr>origKey = ''some-service.key'', newKey = ''SOME_SERVICE_KEY'',
                         value' = ''1'', err = None\<rparr>],
            errors = [\<lparr>origKey = ''firebase.key'', newKey = ''FIREBASE_KEY'',
                        value' = ''2'', err = Some ''starts with a reserved prefix''\<rparr>]\<rparr> \<and>
   '''' @ transformedKey upperASCII ''firebase.key'' = ''FIREBASE_KEY''"
proof -
  let ?leaves = "[(''some-service.key'', ''1''), (''firebase.key'', ''2'')]"
  have contract: "meetsContract reservedPrefix"
    by (simp add: meetsContract_def reservedPrefix_def)
  have t: "'''' @ transformedKey upperASCII ''firebase.key'' = ''FIREBASE_KEY''"
    by (simp add: transformedKey_def upperASCII_def)
  have c1: "convertKey upperASCII reservedPrefix ''some-service.key'' ''''
              = Inr ''SOME_SERVICE_KEY''"
    by (simp add: convertKey_def reservedPrefix_def replaceAll_def upperASCII_def)
  have c2: "convertKey upperASCII reservedPrefix ''firebase.key'' ''''
              = Inl (KeyValidationError ''FIREBASE_KEY'' ''starts with a reserved prefix'')"
    by (simp add: convertKey_def reservedPrefix_def replaceAll_def upperASCII_def)
  have s: "successEntries upperASCII reservedPrefix '''' ?leaves
             = [\<lparr>origKey = ''some-service.key'', newKey = ''SOME_SERVICE_KEY'',
                 value' = ''1'', err = None\<rparr>]"
    by (simp add: successEntries_Cons sorted_Nil c1 c2)
  have e: "errorEntries upperASCII reservedPrefix '''' ?leaves
             = [\<lparr>origKey = ''firebase.key'', newKey = ''FIREBASE_KEY'',
                 value' = ''2'', err = Some ''starts with a reserved prefix''\<rparr>]"
    by (simp add: errorEntries_Cons sorted_Nil c1 c2)
  from C4_configToEnv [of upperASCII reservedPrefix "\<lambda>c. c" ?leaves "''''"] contract
  have "configToEnv upperASCII reservedPrefix (\<lambda>c. c) ?leaves ''''
          = Inr \<lparr>success = successEntries upperASCII reservedPrefix '''' ?leaves,
                 errors = errorEntries upperASCII reservedPrefix '''' ?leaves\<rparr>"
    by blast
  with t show ?thesis
    unfolding s e by simp
qed

text \<open>
  One step of the loop at a leaf whose conversion fails with an error of another kind,
  as it does when the validator, outside its contract, fails so on the prefixed key.
\<close>

lemma other_failure_is_fatal:
  assumes "convertKey toUpperCase validateKey configKey prefix = Inl e"
    and "\<not> isValidationFailure e"
  shows "configToEnvLoop toUpperCase validateKey prefix ((configKey, v) # rest) succ errs =
           Inl (FirebaseError ''Unexpected error while converting config'' (Some e))"
  using assms by (cases e) (simp_all add: isValidationFailure_def)

subsection \<open>toDotenvFormat\<close>

lemma replaceFirst_spec:
  "replaceFirst c rep s = firstOccurrenceReplaced c rep s"
  by (induction s) (auto simp: firstOccurrenceReplaced_def)

lemma escape_eq_spec: "escape s = escape_spec s"
  by (simp add: escape_def escape_spec_def replaceFirst_spec Let_def)

lemma Math_max_Max:
  "xs \<noteq> [] \<Longrightarrow> Math_max xs = Some (Max (set xs))"
  by (cases xs) (simp_all add: Math_max_def Max.set_eq_fold [symmetric])

lemma padEnd_padded: "padEnd (Some n) s = padded n s"
  by (simp add: padEnd_def padded_def)

lemma indexed_map:
  "map (\<lambda>(line, idx). f line (envs ! idx)) (zip (map g envs) [0..<length (map g envs)])
     = map (\<lambda>e. f (g e) e) envs"
  by (rule nth_equalityI) simp_all

lemma padded_length:
  "length s \<le> n \<Longrightarrow> length (padded n s) = n"
  by (simp add: padded_def)

text \<open>
  C7.  For a non-empty list of entries, the result is the entries' lines joined by
  newlines, one line per entry in order: \<^verbatim>\<open>KEY="escaped-value"\<close> (escaped as the spec
  words it, \<open>escape_spec\<close>), padded with spaces to the greatest length of a rendered
  line, then \<^verbatim>\<open> # from \<close> and the original key.
\<close>

theorem C7_toDotenvFormat:
  assumes "envs \<noteq> []"
  shows
    "(let maxLen = Max (set (map (\<lambda>e. length (rendered e)) envs))
      in toDotenvFormat envs =
           join [newline] (map (\<lambda>e. padded maxLen (rendered e) @ '' # from '' @ origKey e) envs) \<and>
         (\<forall>e \<in> set envs.
            length (padded maxLen (rendered e)) = maxLen \<and>
            take (length (rendered e)) (padded maxLen (rendered e)) = rendered e \<and>
            set (drop (length (rendered e)) (padded maxLen (rendered e))) \<subseteq> {CHR '' ''}))"
proof -
  let ?line = "\<lambda>e. newKey e @ [CHR ''='', doubleQuote] @ escape (value' e) @ [doubleQuote]"
  let ?M = "Max (set (map (\<lambda>e. length (rendered e)) envs))"
  have line: "?line = rendered"
    by (rule ext) (simp add: rendered_def escape_eq_spec)
  have lens: "map length (map rendered envs) = map (\<lambda>e. length (rendered e)) envs"
    by simp
  from assms have mm: "Math_max (map length (map rendered envs)) = Some ?M"
    unfolding lens by (simp add: Math_max_Max)
  have "toDotenvFormat envs =
      join [newline]
        (map (\<lambda>(line, idx). padEnd (Some ?M) line @ '' # from '' @ origKey (envs ! idx))
           (zip (map rendered envs) [0..<length (map rendered envs)]))"
    unfolding toDotenvFormat_def line Let_def mm ..
  also have "\<dots> = join [newline]
        (map (\<lambda>e. padded ?M (rendered e) @ '' # from '' @ origKey e) envs)"
    unfolding padEnd_padded
    using indexed_map [of "\<lambda>line e. padded ?M line @ '' # from '' @ origKey e" envs rendered]
    by simp
  finally have fmt: "toDotenvFormat envs = join [newline]
        (map (\<lambda>e. padded ?M (rendered e) @ '' # from '' @ origKey e) envs)" .
  have pad: "\<forall>e \<in> set envs.
            length (padded ?M (rendered e)) = ?M \<and>
            take (length (rendered e)) (padded ?M (rendered e)) = rendered e \<and>
            set (drop (length (rendered e)) (padded ?M (rendered e))) \<subseteq> {CHR '' ''}"
  proof
    fix e assume e: "e \<in> set envs"
    then have "length (rendered e) \<in> set (map (\<lambda>e. length (rendered e)) envs)"
      by simp
    then have "length (rendered e) \<le> ?M"
      by (intro Max_ge) simp_all
    then show "length (padded ?M (rendered e)) = ?M \<and>
            take (length (rendered e)) (padded ?M (rendered e)) = rendered e \<and>
            set (drop (length (rendered e)) (padded ?M (rendered e))) \<subseteq> {CHR '' ''}"
      by (auto simp: padded_def)
  qed
  from fmt pad show ?thesis
    unfolding Let_def by blast
qed

text \<open>
  The theorem at two entries; the second value holds two newlines, of which only the first
  is escaped, and a double quote.
\<close>

theorem C7_toDotenvFormat_witness:
  "[\<lparr>origKey = ''a.b'', newKey = ''A_B'', value' = ''1'', err = None\<rparr>,
    \<lparr>origKey = ''msg'', newKey = ''MSG'',
     value' = [CHR ''x'', newline, CHR ''y'', newline, doubleQuote], err = None\<rparr>] \<noteq> [] \<and>
   toDotenvFormat
     [\<lparr>origKey = ''a.b'', newKey = ''A_B'', value' = ''1'', err = None\<rparr>,
      \<lparr>origKey = ''msg'', newKey = ''MSG'',
       value' = [CHR ''x'', newline, CHR ''y'', newline, doubleQuote], err = None\<rparr>]
     = ''A_B='' @ [doubleQuote] @ ''1'' @ [doubleQuote] @ ''       # from a.b'' @ [newline] @
       ''MSG='' @ [doubleQuote] @ ''x'' @ [backslash] @ ''ny''
         @ [newline, backslash, doubleQuote, doubleQuote] @ '' # from msg''"
proof -
  let ?envs = "[\<lparr>origKey = ''a.b'', newKey = ''A_B'', value' = ''1'', err = None\<rparr>,
      \<lparr>origKey = ''msg'', newKey = ''MSG'',
       value' = [CHR ''x'', newline, CHR ''y'', newline, doubleQuote], err = None\<rparr>]"
  have h: "?envs \<noteq> []"
    by simp
  have spec: "(let maxLen = Max (set (map (\<lambda>e. length (rendered e)) ?envs))
      in join [newline] (map (\<lambda>e. padded maxLen (rendered e) @ '' # from '' @ origKey e) ?envs))
     = ''A_B='' @ [doubleQuote] @ ''1'' @ [doubleQuote] @ ''       # from a.b'' @ [newline] @
       ''MSG='' @ [doubleQuote] @ ''x'' @ [backslash] @ ''ny''
         @ [newline, backslash, doubleQuote, doubleQuote] @ '' # from msg''"
    by (simp add: rendered_def escape_spec_def firstOccurrenceReplaced_def padded_def
        newline_def carriageReturn_def tab_def verticalTab_def backslash_def singleQuote_def
        doubleQuote_def)
  from C7_toDotenvFormat [OF h]
  have "toDotenvFormat ?envs =
      (let maxLen = Max (set (map (\<lambda>e. length (rendered e)) ?envs))
       in join [newline] (map (\<lambda>e. padded maxLen (rendered e) @ '' # from '' @ origKey e) ?envs))"
    unfolding Let_def by blast
  with spec h show ?thesis
    by (simp only: simp_thms)
qed

section \<open>Properties of the store model\<close>

subsection \<open>Writes go to new cells or to the backend's lists\<close>
















lemma newTargetIds_fresh: "freshRef s (newTargetIds_s projectId annotation region s)"
  by (simp add: freshRef_def newTargetIds_s_def alloc_def)



























subsection \<open>The arrays only grow, by references to new cells\<close>


















subsection \<open>The caller's objects\<close>


lemma reach_property:
  assumes "getProp s v k = JRef b"
  shows "b \<in> reach s v"
proof -
  from assms obtain a ps where a: "v = JRef a" "a < length s" "s ! a = Object ps"
    and m: "map_of ps k = Some (JRef b)"
    by (auto simp: getProp_def propsOf_def split: jsval.splits if_splits jsobj.splits
        option.splits)
  from m have "(k, JRef b) \<in> set ps"
    by (rule map_of_SomeD)
  then have "b \<in> set (cellRefs (s ! a))"
    unfolding a(3) cellRefs_def by force
  with reach.root [OF a(1)] a(2) show ?thesis
    by (rule reach.step)
qed


text \<open>
  The theorem at the store of the scheduled event function: the annotation reaches
  cells 0 to 3, none of them one of the backend's cells 5 to 8; after the call they are
  as before, the event trigger's \<^verbatim>\<open>resource\<close> among them.
\<close>

lemmas prim_defs = alloc_def getProp_def hasProp_def propsOf_def elemsOf_def
  setProp_def push_def truthy_def strOf_def setIn_def pushIn_def



text \<open>The store of the scheduled event function after the call, cell by cell.\<close>

lemma scheduledStoreAfter_cells:
  "scheduledStoreAfter =
     [Object [(''name'', JStr ''tick''), (''entryPoint'', JStr ''tick''),
              (''eventTrigger'', JRef 1), (''labels'', JRef 2), (''schedule'', JRef 3)],
      Object [(''eventType'', JStr ''google.pubsub.topic.publish''),
              (''resource'', JStr ''projects/p/topics''),
              (''service'', JStr ''pubsub.googleapis.com'')],
      Object [(''team'', JStr ''core'')],
      Object [(''schedule'', JStr ''every 5 minutes'')],
      Object [(''cloudFunctions'', JRef 5), (''schedules'', JRef 6), (''topics'', JRef 7),
              (''requiredAPIs'', JRef 8), (''environmentVariables'', JRef 9)],
      Array [JRef 15], Array [JRef 16], Array [JRef 17],
      Object [(''scheduler'', JStr ''cloudscheduler.googleapis.com''),
              (''pubsub'', JStr ''pubsub.googleapis.com'')],
      Object [],
      Object [(''deployment'', JStr ''firebase-schedule'')],
      Array [JStr ''us-central1''],
      Object [(''resource'', JStr ''projects/p/topics/firebase-schedule-tick-us-central1''),
              (''resource'', JStr ''projects/p/topics'')],
      Object [(''retry'', JBool False), (''eventFilters'', JRef 12),
              (''eventType'', JStr ''google.pubsub.topic.publish'')],
      Object [(''project'', JStr ''p''), (''region'', JStr ''us-central1''),
              (''id'', JStr ''tick'')],
      Object [(''labels'', JRef 18), (''labels'', JRef 2), (''trigger'', JRef 13),
              (''runtime'', JStr ''nodejs14''), (''entryPoint'', JStr ''tick''),
              (''project'', JStr ''p''), (''region'', JStr ''us-central1''),
              (''id'', JStr ''tick''), (''platform'', JStr ''gcfv1'')],
      Object [(''targetService'', JRef 14), (''transport'', JStr ''pubsub''),
              (''schedule'', JStr ''every 5 minutes''), (''project'', JStr ''p''),
              (''id'', JStr ''firebase-schedule-tick-us-central1'')],
      Object [(''targetService'', JRef 14), (''labels'', JRef 10), (''project'', JStr ''p''),
              (''id'', JStr ''firebase-schedule-tick-us-central1'')],
      Object [(''deployment-scheduled'', JStr ''true''), (''team'', JStr ''core'')]]"
proof -
  let ?ann = "Object [(''name'', JStr ''tick''), (''entryPoint'', JStr ''tick''),
              (''eventTrigger'', JRef 1), (''labels'', JRef 2), (''schedule'', JRef 3)]"
  let ?event = "Object [(''eventType'', JStr ''google.pubsub.topic.publish''),
              (''resource'', JStr ''projects/p/topics''),
              (''service'', JStr ''pubsub.googleapis.com'')]"
  let ?labels = "Object [(''team'', JStr ''core'')]"
  let ?every = "Object [(''schedule'', JStr ''every 5 minutes'')]"
  let ?want = "Object [(''cloudFunctions'', JRef 5), (''schedules'', JRef 6), (''topics'', JRef 7),
              (''requiredAPIs'', JRef 8), (''environmentVariables'', JRef 9)]"
  let ?const = "Object [(''deployment'', JStr ''firebase-schedule'')]"
  let ?pre = "\<lambda>fs ss ts apis.
                [?ann, ?event, ?labels, ?every, ?want, Array fs, Array ss, Array ts,
                 Object apis, Object [], ?const, Array [JStr ''us-central1'']]"
  let ?pubsub = "(''pubsub'', JStr ''pubsub.googleapis.com'')"
  let ?scheduler = "(''scheduler'', JStr ''cloudscheduler.googleapis.com'')"
  let ?ident = "''firebase-schedule-tick-us-central1''"
  let ?E = "(''resource'', JStr ''projects/p/topics'')"
  let ?E' = "(''resource'', JStr ''projects/p/topics/firebase-schedule-tick-us-central1'')"
  let ?T = "Object [(''retry'', JBool False), (''eventFilters'', JRef 12),
                    (''eventType'', JStr ''google.pubsub.topic.publish'')]"
  let ?N = "Object [(''project'', JStr ''p''), (''region'', JStr ''us-central1''),
                    (''id'', JStr ''tick'')]"
  let ?F = "[(''trigger'', JRef 13), (''runtime'', JStr ''nodejs14''),
             (''entryPoint'', JStr ''tick''), (''project'', JStr ''p''),
             (''region'', JStr ''us-central1''), (''id'', JStr ''tick''),
             (''platform'', JStr ''gcfv1'')]"
  let ?F1 = "Object ((''labels'', JRef 2) # ?F)"
  let ?F2 = "Object ((''labels'', JRef 18) # (''labels'', JRef 2) # ?F)"
  let ?S = "Object [(''targetService'', JRef 14), (''transport'', JStr ''pubsub''),
              (''schedule'', JStr ''every 5 minutes''), (''project'', JStr ''p''),
              (''id'', JStr ?ident)]"
  let ?P = "Object [(''targetService'', JRef 14), (''labels'', JRef 10), (''project'', JStr ''p''),
              (''id'', JStr ?ident)]"
  let ?L = "Object [(''deployment-scheduled'', JStr ''true''), (''team'', JStr ''core'')]"
  let ?s0 = "?pre [] [] [] []"
  let ?fn = "[Object [?E], ?T, ?N, ?F1]"
  have st: "scheduledStore @ [Array [JStr ''us-central1'']] = ?s0"
    by (simp add: scheduledStore_def backendCells_def)
  have bt: "buildTrigger_s ?s0 (JRef 0) = (JRef 13, ?s0 @ [Object [?E], ?T])"
    by (simp add: buildTrigger_s_def prim_defs Let_def)
  have nt: "newTargetIds_s ''p'' (JRef 0) ''us-central1'' (?s0 @ [Object [?E], ?T])
              = (JRef 14, ?s0 @ [Object [?E], ?T, ?N])"
    by (simp add: newTargetIds_s_def prim_defs Let_def)
  have fo: "newFunctionObject_s ''nodejs14'' (JRef 0) (JRef 14) (JRef 13)
              (?s0 @ [Object [?E], ?T, ?N]) = (JRef 15, ?s0 @ [Object [?E], ?T, ?N, Object ?F])"
    by (simp add: newFunctionObject_s_def prim_defs Let_def)
  have vc: "setVpcConnector_s ''p'' ''us-central1'' (JRef 0) (JRef 15)
              (?s0 @ [Object [?E], ?T, ?N, Object ?F]) = ?s0 @ [Object [?E], ?T, ?N, Object ?F]"
    by (simp add: setVpcConnector_s_def prim_defs Let_def)
  have cp: "copyIfPresent_s (?s0 @ [Object [?E], ?T, ?N, Object ?F]) (JRef 15) (JRef 0)
              passthroughFields = ?s0 @ ?fn"
    by (simp add: passthroughFields_def prim_defs)
  have nf: "newFunction_s ''p'' ''nodejs14'' (JRef 0) ''us-central1'' ?s0
              = ((JRef 14, JRef 15), ?s0 @ ?fn)"
    unfolding newFunction_s_def bt Let_def prod.case nt fo vc cp ..
  have ch: "(truthy (getProp ?s0 (JRef 0) ''httpsTrigger'')
              = truthy (getProp ?s0 (JRef 0) ''eventTrigger'')) = False"
    by (simp add: prim_defs)
  have sc: "truthy (getProp (?s0 @ ?fn) (JRef 0) ''schedule'') = True"
    by (simp add: prim_defs)
  have a1: "setIn (?s0 @ ?fn) (JRef 4) ''requiredAPIs'' ''pubsub'' (JStr ''pubsub.googleapis.com'')
              = ?pre [] [] [] [?pubsub] @ ?fn"
    by (simp add: prim_defs)
  have a2: "setIn (?pre [] [] [] [?pubsub] @ ?fn) (JRef 4) ''requiredAPIs'' ''scheduler''
              (JStr ''cloudscheduler.googleapis.com'') = ?pre [] [] [] [?scheduler, ?pubsub] @ ?fn"
    by (simp add: prim_defs)
  let ?apis = "[?scheduler, ?pubsub]"
  have sid: "scheduleIdOf externals0 (JRef 14) (?pre [] [] [] ?apis @ ?fn) = ?ident"
    by (simp add: scheduleIdOf_def externals0_def prim_defs)
  have ns: "newSchedule_s ?ident ''p'' (JRef 0) (JRef 14) (?pre [] [] [] ?apis @ ?fn)
              = (JRef 16, ?pre [] [] [] ?apis @ ?fn @ [?S])"
    by (simp add: newSchedule_s_def prim_defs Let_def)
  have p1: "pushIn (?pre [] [] [] ?apis @ ?fn @ [?S]) (JRef 4) ''schedules'' (JRef 16)
              = ?pre [] [JRef 16] [] ?apis @ ?fn @ [?S]"
    by (simp add: prim_defs)
  have np: "newTopic_s ?ident (JRef 10) ''p'' (JRef 14) (?pre [] [JRef 16] [] ?apis @ ?fn @ [?S])
              = (JRef 17, ?pre [] [JRef 16] [] ?apis @ ?fn @ [?S, ?P])"
    by (simp add: newTopic_s_def prim_defs Let_def)
  have p2: "pushIn (?pre [] [JRef 16] [] ?apis @ ?fn @ [?S, ?P]) (JRef 4) ''topics'' (JRef 17)
              = ?pre [] [JRef 16] [JRef 17] ?apis @ ?fn @ [?S, ?P]"
    by (simp add: prim_defs)
  have ast: "addScheduleAndTopic_s externals0 (JRef 10) ''p'' (JRef 0) (JRef 4) (JRef 14)
               (?s0 @ ?fn) = (?ident, ?pre [] [JRef 16] [JRef 17] ?apis @ ?fn @ [?S, ?P])"
    unfolding addScheduleAndTopic_s_def a1 a2 Let_def sid ns prod.case p1 np p2 ..
  let ?s6 = "?pre [] [JRef 16] [JRef 17] ?apis @ ?fn @ [?S, ?P]"
  have tg: "getProp ?s6 (JRef 15) ''trigger'' = JRef 13"
    by (simp add: prim_defs)
  have ev: "hasProp ?s6 (JRef 13) ''eventType'' = True"
    by (simp add: prim_defs)
  have rw: "rewriteResource_s ?ident (JRef 13) ?s6
              = ?pre [] [JRef 16] [JRef 17] ?apis @ [Object [?E', ?E], ?T, ?N, ?F1, ?S, ?P]"
    by (simp add: rewriteResource_s_def prim_defs Let_def)
  have ml: "mergeLabel_s (JRef 15)
              (?pre [] [JRef 16] [JRef 17] ?apis @ [Object [?E', ?E], ?T, ?N, ?F1, ?S, ?P])
              = ?pre [] [JRef 16] [JRef 17] ?apis @ [Object [?E', ?E], ?T, ?N, ?F2, ?S, ?P, ?L]"
    by (simp add: mergeLabel_s_def prim_defs Let_def)
  have ms: "markScheduled_s ?ident (JRef 15) ?s6
              = ?pre [] [JRef 16] [JRef 17] ?apis @ [Object [?E', ?E], ?T, ?N, ?F2, ?S, ?P, ?L]"
    unfolding markScheduled_s_def tg Let_def ev if_True rw ml ..
  have p3: "pushIn (?pre [] [JRef 16] [JRef 17] ?apis
                      @ [Object [?E', ?E], ?T, ?N, ?F2, ?S, ?P, ?L])
              (JRef 4) ''cloudFunctions'' (JRef 15)
              = ?pre [JRef 15] [JRef 16] [JRef 17] ?apis
                  @ [Object [?E', ?E], ?T, ?N, ?F2, ?S, ?P, ?L]"
    by (simp add: prim_defs)
  have rb: "regionBody_s externals0 (JRef 10) ''p'' ''nodejs14'' (JRef 0) (JRef 4) ''us-central1''
              ?s0 = (Inr (), ?pre [JRef 15] [JRef 16] [JRef 17] ?apis
                               @ [Object [?E', ?E], ?T, ?N, ?F2, ?S, ?P, ?L])"
    unfolding regionBody_s_def ch if_False nf Let_def prod.case sc if_True ast ms p3 ..
  have loop: "forRegions_s externals0 (JRef 10) ''p'' ''nodejs14'' (JRef 0) (JRef 4)
                [JStr ''us-central1''] ?s0
              = (Inr (), ?pre [JRef 15] [JRef 16] [JRef 17] ?apis
                           @ [Object [?E', ?E], ?T, ?N, ?F2, ?S, ?P, ?L])"
    unfolding forRegions_s.simps strOf_def jsval.case rb prod.case sum.case ..
  have rg: "truthy (getProp scheduledStore (JRef 0) ''regions'') = False"
    by (simp add: prim_defs scheduledStore_def)
  have al: "alloc scheduledStore (Array [JStr (functionsDefaultRegion externals0)]) = (11, ?s0)"
    by (simp add: alloc_def externals0_def scheduledStore_def backendCells_def)
  have el: "elemsOf ?s0 (JRef 11) = [JStr ''us-central1'']"
    by (simp add: prim_defs)
  have fin: "addResourcesToBackend_s externals0 (JRef 10) ''p'' ''nodejs14'' (JRef 0) (JRef 4)
          scheduledStore = (Inr (), ?pre [JRef 15] [JRef 16] [JRef 17] ?apis
                           @ [Object [?E', ?E], ?T, ?N, ?F2, ?S, ?P, ?L])"
    unfolding addResourcesToBackend_s_def rg if_False al Let_def prod.case el loop ..
  show ?thesis
    unfolding scheduledStoreAfter_def fin snd_conv by simp
qed

text \<open>
  In that store the rewritten resource is in the filters the call has made for the new
  function (cell 12); the event trigger of the annotation (cell 1) and its labels
  (cell 2) hold what they held, and the function's labels are a new object (cell 18).
\<close>

lemma scheduled_rewrite_in_new_objects:
  "elemsOf scheduledStoreAfter (getProp scheduledStoreAfter (JRef 4) ''cloudFunctions'')
     = [JRef 15] \<and>
   getProp scheduledStoreAfter (JRef 15) ''trigger'' = JRef 13 \<and>
   getProp scheduledStoreAfter (JRef 13) ''eventFilters'' = JRef 12 \<and>
   getProp scheduledStoreAfter (JRef 12) ''resource''
     = JStr ''projects/p/topics/firebase-schedule-tick-us-central1'' \<and>
   getProp scheduledStoreAfter (JRef 0) ''eventTrigger'' = JRef 1 \<and>
   getProp scheduledStoreAfter (JRef 1) ''resource'' = JStr ''projects/p/topics'' \<and>
   getProp scheduledStoreAfter (JRef 15) ''labels'' = JRef 18 \<and>
   propsOf scheduledStoreAfter (JRef 18)
     = [(''deployment-scheduled'', JStr ''true''), (''team'', JStr ''core'')] \<and>
   getProp scheduledStoreAfter (JRef 0) ''labels'' = JRef 2 \<and>
   propsOf scheduledStoreAfter (JRef 2) = [(''team'', JStr ''core'')]"
  by (simp add: scheduledStoreAfter_cells getProp_def propsOf_def elemsOf_def)


end
